theory Spec2Isabelle
  imports Complex_Main "HOL-Library.Char_ord" "HOL-Library.List_Lexorder" "HOL-Library.Sublist"
begin

section \<open>Python values and exceptions\<close>

text \<open>
  The exceptions the modelled code can raise. A function that can raise returns
  \<open>py_error + 'a\<close>, with \<open>Inl\<close> for the exception.
\<close>

datatype py_error =
    AssertionError
  | IndexError
  | RuntimeError
  | FileNotFoundError
  | ZeroDivisionError
  | TypeError
  | ValueError
  | OSError
  | EOFError

section \<open>Token shards on disk\<close>

text \<open>
  The data directory \<open>edu_fineweb10B\<close> is a list of entries: a file name and what
  \<open>np.load\<close> makes of that file, either an integer array or the exception it raises (on
  a file that holds no array, on a subdirectory). \<open>None\<close> is a missing directory.
  \<^verbatim>\<open>
  def load_tokens(filename):
      npt = np.load(filename)
      ptt = torch.tensor(npt, dtype=torch.long)
      return ptt
  \<close>
  \<open>torch.tensor(npt, dtype=torch.long)\<close> turns every value into a signed 64-bit integer,
  wrapping around: \<open>to_long\<close>. Token ids are those values, as \<open>int\<close>.
\<close>

datatype file_content = Array "int list" | Unreadable py_error

type_synonym directory = "(string \<times> file_content) list"

type_synonym filesystem = "directory option"

definition data_root :: string where
  "data_root = ''edu_fineweb10B''"

definition os_path_join :: "string \<Rightarrow> string \<Rightarrow> string" where
  "os_path_join a b = a @ ''/'' @ b"

definition os_listdir :: "filesystem \<Rightarrow> py_error + string list" where
  "os_listdir fs = (case fs of None \<Rightarrow> Inl FileNotFoundError | Some d \<Rightarrow> Inr (map fst d))"

definition to_long :: "int \<Rightarrow> int" where
  "to_long v = (v + 2 ^ 63) mod 2 ^ 64 - 2 ^ 63"

definition load_tokens :: "filesystem \<Rightarrow> string \<Rightarrow> py_error + int list" where
  "load_tokens fs filename =
     (case fs of
        None \<Rightarrow> Inl FileNotFoundError
      | Some d \<Rightarrow>
          (case map_of (map (\<lambda>(n, c). (os_path_join data_root n, c)) d) filename of
             None \<Rightarrow> Inl FileNotFoundError
           | Some (Unreadable e) \<Rightarrow> Inl e
           | Some (Array npt) \<Rightarrow> Inr (map to_long npt)))"

section \<open>Tensors of tokens\<close>

text \<open>
  A two-dimensional integer tensor is its size and its elements in row-major order.
  \<open>view(B, T)\<close> of a one-dimensional tensor raises unless it has exactly \<open>B * T\<close>
  elements. A slice \<open>xs[a:b]\<close> with \<open>0 \<le> a \<le> b\<close> is clipped to the length of \<open>xs\<close>.
\<close>

record tensor2d =
  dims :: "nat \<times> nat"
  elems :: "int list"

definition view2d :: "int list \<Rightarrow> nat \<Rightarrow> nat \<Rightarrow> py_error + tensor2d" where
  "view2d xs b t =
     (if length xs = b * t then Inr \<lparr>dims = (b, t), elems = xs\<rparr> else Inl RuntimeError)"

definition at2d :: "tensor2d \<Rightarrow> nat \<Rightarrow> nat \<Rightarrow> int" where
  "at2d x i j = elems x ! (i * snd (dims x) + j)"

definition py_slice :: "'a list \<Rightarrow> nat \<Rightarrow> nat \<Rightarrow> 'a list" where
  "py_slice xs a b = take (b - a) (drop a xs)"

section \<open>DataLoaderLite (gpt\_model.py, lines 227 to 266)\<close>

text \<open>
  The object's attributes; \<open>self.B\<close> and \<open>self.T\<close> are the fields \<open>loader_B\<close> and
  \<open>loader_T\<close>. Batch rows, sequence length, rank and world size are counts, so they
  are natural numbers.
\<close>

record DataLoaderLite =
  loader_B :: nat
  loader_T :: nat
  process_rank :: nat
  num_processes :: nat
  shards :: "string list"
  current_shard :: nat
  tokens :: "int list"
  current_position :: nat

text \<open>
  \<^verbatim>\<open>
  def reset(self):
      self.current_shard = 0
      self.tokens= load_tokens(self.shards[self.current_shard])
      self.current_position = self.B * self.T * self.process_rank
  \<close>
\<close>

definition reset :: "filesystem \<Rightarrow> DataLoaderLite \<Rightarrow> py_error + DataLoaderLite" where
  "reset fs self =
     (case shards self of
        [] \<Rightarrow> Inl IndexError
      | s0 # _ \<Rightarrow>
          (case load_tokens fs s0 of
             Inl e \<Rightarrow> Inl e
           | Inr ts \<Rightarrow>
               Inr (self\<lparr>current_shard := 0, tokens := ts,
                     current_position := loader_B self * loader_T self * process_rank self\<rparr>)))"

text \<open>
  \<^verbatim>\<open>
  def __init__(self, B, T, process_rank, num_processes):
      self.B = B
      self.T = T
      self.process_rank = process_rank
      self.num_processes = num_processes
      assert split in {'train', 'val'}
      data_root = "edu_fineweb10B"
      shards = os.listdir(data_root)
      shards = [s for s in shards if split in s]
      shards = sorted(shards)
      shards = [os.path.join(data_root, s) for s in shards]
      self.shards = shards
      assert len(shards) > 0, f"no shards found in split {split}"
      if master_process:
          print(f"found {len(shards)} shards in split {split}")
      self.reset()
  \<close>
  \<open>split\<close> is not a parameter of \<open>__init__\<close>: the body reads the name from the
  enclosing module, so the model takes its value as an argument. A value that is not a
  string is equal to neither \<open>'train'\<close> nor \<open>'val'\<close>, so the first assertion fails on
  it. \<open>split in s\<close> on strings is the substring test. The \<open>print\<close> of the master
  process leaves the object as it is. The three attributes that \<open>reset\<close> assigns do not
  exist before it runs; their initial values below are never read.
\<close>

datatype py_value = PyStr string | PyFunction string

text \<open>
  The shard list that the constructor computes from the names in the data directory:
  the names that contain the split name, sorted, joined to the directory name.
\<close>

definition found_shards :: "string list \<Rightarrow> string \<Rightarrow> string list" where
  "found_shards names sp = map (os_path_join data_root) (sort (filter (sublist sp) names))"

definition DataLoaderLite_init ::
  "filesystem \<Rightarrow> py_value \<Rightarrow> nat \<Rightarrow> nat \<Rightarrow> nat \<Rightarrow> nat \<Rightarrow> py_error + DataLoaderLite" where
  "DataLoaderLite_init fs split B T rank nproc =
     (case split of
        PyFunction _ \<Rightarrow> Inl AssertionError
      | PyStr sp \<Rightarrow>
          if sp \<noteq> ''train'' \<and> sp \<noteq> ''val'' then Inl AssertionError
          else
            (case os_listdir fs of
               Inl e \<Rightarrow> Inl e
             | Inr names \<Rightarrow>
                 (let found = found_shards names sp
                  in if \<not> length found > 0 then Inl AssertionError
                     else reset fs \<lparr>loader_B = B, loader_T = T, process_rank = rank,
                            num_processes = nproc, shards = found, current_shard = 0,
                            tokens = [], current_position = 0\<rparr>)))"

text \<open>
  The module binds \<open>split\<close> by \<open>from numpy import split\<close> (line 219): a function.
\<close>

definition module_split :: py_value where
  "module_split = PyFunction ''numpy.split''"

text \<open>
  \<^verbatim>\<open>
  train_loader = DataLoaderLite(B=B, T=T, process_rank = ddp_rank,
                                num_processes = ddp_world_size, split = 'train')
  val_loader = DataLoaderLite(B=B, T=T, process_rank = ddp_rank,
                              num_processes = ddp_world_size, split = 'val')
  \<close>
  A call of the class, as at lines 348 and 349, with or without the keyword \<open>split\<close>.
  Python raises \<open>TypeError\<close> on a keyword that the signature of \<open>__init__\<close> does not
  declare, before the body runs; without the keyword the body runs with the module's
  binding of \<open>split\<close>.
\<close>

definition DataLoaderLite_call ::
  "filesystem \<Rightarrow> nat \<Rightarrow> nat \<Rightarrow> nat \<Rightarrow> nat \<Rightarrow> string option
     \<Rightarrow> py_error + DataLoaderLite" where
  "DataLoaderLite_call fs B T rank nproc split_keyword =
     (case split_keyword of
        Some _ \<Rightarrow> Inl TypeError
      | None \<Rightarrow> DataLoaderLite_init fs module_split B T rank nproc)"

text \<open>
  \<^verbatim>\<open>
  def next_batch(self):
      B, T = self.B, self.T
      buf = self.tokens[self.current_position : self.current_position + B * T + 1]
      x = (buf[:-1]).view(B, T) # inputs
      y = (buf[1:]).view(B, T) # tragets
      self.current_position += B * T * self.num_processes
      if self.current_position + (B * T * self.num_processes + 1) > len(self.tokens):
          self.current_shard = (self.current_shard + 1) % len(self.shards)
          self.tokens = load_tokens(self.shards[self.current_shard])
          self.current_position = self.B * self.T * self.process_rank
      return x, y
  \<close>
  \<open>buf\<close> is \<open>batch_window self\<close>; \<open>buf[:-1]\<close> is \<open>butlast buf\<close> and \<open>buf[1:]\<close> is
  \<open>drop 1 buf\<close>, also on an empty \<open>buf\<close>. The result is the batch and the updated
  object.
\<close>

type_synonym batch = "tensor2d \<times> tensor2d"

definition batch_window :: "DataLoaderLite \<Rightarrow> int list" where
  "batch_window self =
     py_slice (tokens self) (current_position self)
       (current_position self + loader_B self * loader_T self + 1)"

definition next_batch ::
  "filesystem \<Rightarrow> DataLoaderLite \<Rightarrow> py_error + (batch \<times> DataLoaderLite)" where
  "next_batch fs self =
     (let B = loader_B self; T = loader_T self; buf = batch_window self
      in case view2d (butlast buf) B T of
           Inl e \<Rightarrow> Inl e
         | Inr x \<Rightarrow>
             (case view2d (drop 1 buf) B T of
                Inl e \<Rightarrow> Inl e
              | Inr y \<Rightarrow>
                  (let pos = current_position self + B * T * num_processes self
                   in if pos + (B * T * num_processes self + 1) > length (tokens self)
                      then
                        (if length (shards self) = 0 then Inl ZeroDivisionError
                         else
                           (let cs = (current_shard self + 1) mod length (shards self)
                            in case load_tokens fs (shards self ! cs) of
                                 Inl e \<Rightarrow> Inl e
                               | Inr ts \<Rightarrow>
                                   Inr ((x, y),
                                        self\<lparr>current_shard := cs, tokens := ts,
                                          current_position :=
                                            loader_B self * loader_T self * process_rank self\<rparr>)))
                      else Inr ((x, y), self\<lparr>current_position := pos\<rparr>))))"

text \<open>
  \<open>k\<close> calls of \<open>next_batch\<close> in a row, as the loops of the training script make them:
  the batches in call order, and the object after the last call. The first exception ends
  the run.
\<close>

fun next_batches ::
  "filesystem \<Rightarrow> DataLoaderLite \<Rightarrow> nat \<Rightarrow> py_error + (batch list \<times> DataLoaderLite)" where
  "next_batches fs self 0 = Inr ([], self)"
| "next_batches fs self (Suc k) =
     (case next_batch fs self of
        Inl e \<Rightarrow> Inl e
      | Inr (b, self') \<Rightarrow>
          (case next_batches fs self' k of
             Inl e \<Rightarrow> Inl e
           | Inr (bs, self'') \<Rightarrow> Inr (b # bs, self'')))"

definition reset_then_batches ::
  "filesystem \<Rightarrow> DataLoaderLite \<Rightarrow> nat \<Rightarrow> py_error + (batch list \<times> DataLoaderLite)" where
  "reset_then_batches fs self k =
     (case reset fs self of Inl e \<Rightarrow> Inl e | Inr self' \<Rightarrow> next_batches fs self' k)"

text \<open>
  The batch that a call cuts at position \<open>p\<close> of the resident shard when the window of
  \<open>B * T + 1\<close> tokens lies inside the shard: the inputs start at \<open>p\<close>, the targets at
  \<open>p + 1\<close>.
\<close>

definition batch_at :: "DataLoaderLite \<Rightarrow> nat \<Rightarrow> batch" where
  "batch_at self p =
     (\<lparr>dims = (loader_B self, loader_T self),
        elems = take (loader_B self * loader_T self) (drop p (tokens self))\<rparr>,
      \<lparr>dims = (loader_B self, loader_T self),
        elems = take (loader_B self * loader_T self) (drop (p + 1) (tokens self))\<rparr>)"

subsection \<open>Example shards and loaders\<close>

text \<open>
  Concrete inputs for the instances below. \<open>tiny_fs\<close> holds one validation shard of
  16 tokens and two training shards of 10 tokens, listed out of name order.
  \<open>tiny_val\<close> and \<open>tiny_train\<close> are the loaders that the body of the constructor
  builds on it when \<open>split\<close> is bound to the split name.
  \<open>big_fs\<close> holds two training shards of 1000 tokens; \<open>on_shard i\<close> is the loader with
  \<open>B = 4\<close>, \<open>T = 8\<close>, one process, at the start of shard \<open>i\<close>; \<open>big_pass i\<close> are the 31
  batches of one pass over shard \<open>i\<close>, and \<open>big_run\<close> the first 126 batches.
\<close>

definition tiny_fs :: filesystem where
  "tiny_fs =
     Some [(''val_0'', Array [10, 11, 12, 13, 14, 15, 16, 17, 18, 19, 20, 21, 22, 23, 24, 25]),
           (''train_1'', Array [40, 41, 42, 43, 44, 45, 46, 47, 48, 49]),
           (''train_0'', Array [30, 31, 32, 33, 34, 35, 36, 37, 38, 39])]"

definition tiny_val :: DataLoaderLite where
  "tiny_val = \<lparr>loader_B = 2, loader_T = 3, process_rank = 0, num_processes = 1,
      shards = [''edu_fineweb10B/val_0''], current_shard = 0,
      tokens = [10, 11, 12, 13, 14, 15, 16, 17, 18, 19, 20, 21, 22, 23, 24, 25],
      current_position = 0\<rparr>"

definition tiny_train :: "nat \<Rightarrow> nat \<Rightarrow> nat \<Rightarrow> nat \<Rightarrow> DataLoaderLite" where
  "tiny_train B T rank nproc = \<lparr>loader_B = B, loader_T = T, process_rank = rank,
      num_processes = nproc,
      shards = [''edu_fineweb10B/train_0'', ''edu_fineweb10B/train_1''], current_shard = 0,
      tokens = [30, 31, 32, 33, 34, 35, 36, 37, 38, 39],
      current_position = B * T * rank\<rparr>"

definition shard_a :: "int list" where
  "shard_a = map int [0..<1000]"

definition shard_b :: "int list" where
  "shard_b = map int [1000..<2000]"

definition big_fs :: filesystem where
  "big_fs = Some [(''train_b'', Array shard_b), (''train_a'', Array shard_a)]"

definition on_shard :: "nat \<Rightarrow> DataLoaderLite" where
  "on_shard i = \<lparr>loader_B = 4, loader_T = 8, process_rank = 0, num_processes = 1,
      shards = [''edu_fineweb10B/train_a'', ''edu_fineweb10B/train_b''], current_shard = i,
      tokens = [shard_a, shard_b] ! i, current_position = 0\<rparr>"

definition big_pass :: "nat \<Rightarrow> batch list" where
  "big_pass i = map (\<lambda>k. batch_at (on_shard i) (32 * k)) [0..<31]"

definition big_run :: "batch list" where
  "big_run = big_pass 0 @ big_pass 1 @ big_pass 0 @ big_pass 1
               @ [batch_at (on_shard 0) 0, batch_at (on_shard 0) 32]"

section \<open>Startup configuration (gpt\_model.py, lines 336 to 342)\<close>

text \<open>
  \<^verbatim>\<open>
  total_batch_size = 524288 # 2 **19, ~0.5M, in number of tokens
  B = 64 # micro batch size
  T = 1024 # sequence length
  assert total_batch_size % (B * T * ddp_world_size) == 0, "..."
  grad_accum_steps = total_batch_size // (B * T * ddp_world_size)
  \<close>
  The module constants \<open>B\<close> and \<open>T\<close> are named \<open>global_B\<close> and \<open>global_T\<close> here.
  \<open>ddp_world_size\<close> is \<open>int(os.environ['WORLD_SIZE'])\<close> in a distributed run and 1
  otherwise, so it is the parameter. Python's \<open>%\<close> and \<open>//\<close> on integers are the
  flooring \<open>mod\<close> and \<open>div\<close> of HOL, except that Python raises on a zero divisor.
\<close>

definition total_batch_size :: int where
  "total_batch_size = 524288"

definition global_B :: int where
  "global_B = 64"

definition global_T :: int where
  "global_T = 1024"

definition grad_accum_steps :: "int \<Rightarrow> py_error + int" where
  "grad_accum_steps ddp_world_size =
     (if global_B * global_T * ddp_world_size = 0 then Inl ZeroDivisionError
      else if total_batch_size mod (global_B * global_T * ddp_world_size) \<noteq> 0
        then Inl AssertionError
      else Inr (total_batch_size div (global_B * global_T * ddp_world_size)))"

section \<open>Learning-rate schedule (gpt\_model.py, lines 367 to 383)\<close>

text \<open>
  \<^verbatim>\<open>
  max_lr = 6e-4
  min_lr = max_lr * 0.1
  warmup_steps = 715
  max_steps = 19073 * 4

  def get_lr(it):
      if it < warmup_steps:
          return max_lr * (it + 1) / warmup_steps
      if it > max_steps:
          return min_lr
      decay_ratio = (it - warmup_steps) / (max_steps - warmup_steps)
      assert 0 <= decay_ratio <= 1
      coeff = 0.5 * (1.0 + math.cos(math.pi * decay_ratio))
      return min_lr + coeff * (max_lr - min_lr)
  \<close>
  Python floats are modelled as real numbers: the statements below are about the exact
  values, of which the floating-point results are roundings. The step is an integer.
  Python's \<open>/\<close> raises on a zero divisor.
\<close>

definition max_lr :: real where
  "max_lr = 6 / 10000"

definition min_lr :: real where
  "min_lr = max_lr * 0.1"

definition warmup_steps :: int where
  "warmup_steps = 715"

definition max_steps :: int where
  "max_steps = 19073 * 4"

definition get_lr :: "int \<Rightarrow> py_error + real" where
  "get_lr it =
     (if it < warmup_steps then
        (if warmup_steps = 0 then Inl ZeroDivisionError
         else Inr (max_lr * (real_of_int it + 1) / real_of_int warmup_steps))
      else if it > max_steps then Inr min_lr
      else if max_steps - warmup_steps = 0 then Inl ZeroDivisionError
      else
        (let decay_ratio = real_of_int (it - warmup_steps) / real_of_int (max_steps - warmup_steps)
         in if \<not> (0 \<le> decay_ratio \<and> decay_ratio \<le> 1) then Inl AssertionError
            else
              (let coeff = 0.5 * (1.0 + cos (pi * decay_ratio))
               in Inr (min_lr + coeff * (max_lr - min_lr)))))"

section \<open>Gradient accumulation (gpt\_model.py, lines 498 to 515)\<close>

text \<open>
  \<^verbatim>\<open>
  model.train()
  optimizer.zero_grad()
  loss_accum = 0.0
  for micro_step in range(grad_accum_steps):
      x, y = train_loader.next_batch()
      x, y = x.to(device), y.to(device)
      with torch.autocast(device_type = device, dtype=torch.bfloat16):
          logits, loss = model(x, y)
      loss = loss / grad_accum_steps
      loss_accum += loss.detach()
      if ddp:
          model.required_backward_grad_sync = (micro_step == grad_accum_steps - 1)
      loss.backward()
  \<close>
  The state of one accumulation window: the training loader, \<open>loss_accum\<close>, the
  attributes of \<open>model\<close> that the loop or the wrapper set, and a log with one entry for
  each \<open>loss.backward()\<close>, saying whether that backward pass ran the collective
  gradient reduction. The loss that \<open>model(x, y)\<close> returns for a batch is the parameter
  \<open>forward_loss\<close>; losses are real numbers here, of which the floating-point values are
  roundings.

  In a distributed run \<open>model\<close> is \<open>DDP(model, ...)\<close> of
  \<open>torch.nn.parallel\<close>. That class is not part of the repository; what is used of it is
  that its constructor sets the attribute \<open>require_backward_grad_sync\<close> to \<open>True\<close>, that
  a backward pass reduces the gradients across the workers when that attribute is true,
  and that assigning any other attribute of the module only stores the value. Without
  \<open>ddp\<close> no backward pass communicates.
\<close>

definition DDP_init_attrs :: "string \<rightharpoonup> bool" where
  "DDP_init_attrs = [''require_backward_grad_sync'' \<mapsto> True]"

definition backward_syncs :: "bool \<Rightarrow> (string \<rightharpoonup> bool) \<Rightarrow> bool" where
  "backward_syncs ddp attrs \<longleftrightarrow> ddp \<and> attrs ''require_backward_grad_sync'' = Some True"

record train_state =
  train_loader :: DataLoaderLite
  loss_accum :: real
  model_attrs :: "string \<rightharpoonup> bool"
  grad_sync_log :: "bool list"

definition micro_step_body ::
  "filesystem \<Rightarrow> (batch \<Rightarrow> real) \<Rightarrow> bool \<Rightarrow> int \<Rightarrow> int \<Rightarrow> train_state \<Rightarrow> py_error + train_state" where
  "micro_step_body fs forward_loss ddp gas micro_step st =
     (case next_batch fs (train_loader st) of
        Inl e \<Rightarrow> Inl e
      | Inr (xy, loader') \<Rightarrow>
          (let loss = forward_loss xy;
               loss = loss / real_of_int gas;
               attrs = (if ddp
                        then (model_attrs st)(''required_backward_grad_sync'' \<mapsto> (micro_step = gas - 1))
                        else model_attrs st)
           in Inr (st\<lparr>train_loader := loader',
                     loss_accum := loss_accum st + loss,
                     model_attrs := attrs,
                     grad_sync_log := grad_sync_log st @ [backward_syncs ddp attrs]\<rparr>)))"

text \<open>
  The loop over \<open>range(grad_accum_steps)\<close>, which is empty when the count is not
  positive, after \<open>loss_accum = 0.0\<close>.
\<close>

fun micro_steps ::
  "filesystem \<Rightarrow> (batch \<Rightarrow> real) \<Rightarrow> bool \<Rightarrow> int \<Rightarrow> int list \<Rightarrow> train_state
     \<Rightarrow> py_error + train_state" where
  "micro_steps fs forward_loss ddp gas [] st = Inr st"
| "micro_steps fs forward_loss ddp gas (micro_step # rest) st =
     (case micro_step_body fs forward_loss ddp gas micro_step st of
        Inl e \<Rightarrow> Inl e
      | Inr st' \<Rightarrow> micro_steps fs forward_loss ddp gas rest st')"

definition py_range :: "int \<Rightarrow> int list" where
  "py_range n = map int [0..<nat n]"

definition accumulation_window ::
  "filesystem \<Rightarrow> (batch \<Rightarrow> real) \<Rightarrow> bool \<Rightarrow> int \<Rightarrow> train_state \<Rightarrow> py_error + train_state" where
  "accumulation_window fs forward_loss ddp gas st =
     micro_steps fs forward_loss ddp gas (py_range gas) (st\<lparr>loss_accum := 0\<rparr>)"

text \<open>
  An example for the instances below: the loss of a batch is its first input token, and
  the window starts from a stale \<open>loss_accum\<close> on the loader \<open>tiny_val\<close>.
\<close>

definition toy_loss :: "batch \<Rightarrow> real" where
  "toy_loss xy = real_of_int (elems (fst xy) ! 0)"

definition toy_state :: train_state where
  "toy_state = \<lparr>train_loader = tiny_val, loss_accum = 99, model_attrs = DDP_init_attrs,
      grad_sync_log = []\<rparr>"

section \<open>The model's forward pass, by tensor sizes (gpt\_model.py, lines 12 to 137)\<close>

text \<open>
  The forward pass is modelled by the sizes of its tensors: a size is the list of the
  dimensions, every layer maps the size of its input to the size of its output, and raises
  where PyTorch raises on sizes that do not fit. The input \<open>idx\<close> keeps its token ids,
  since the token embedding raises on an id outside the vocabulary. The values of the
  activations are not modelled. The call is \<open>model(idx)\<close>, with \<open>targets=None\<close>, so
  the loss is \<open>None\<close>; \<open>forward\<close> of train\_gpt2.py (lines 91 to 106) has no
  \<open>targets\<close> and the same assertion and layers.
\<close>

type_synonym shape = "nat list"

record GPTConfig =
  block_size :: nat
  vocab_size :: nat
  n_layer :: nat
  n_head :: nat
  n_embd :: nat

definition default_config :: GPTConfig where
  "default_config = \<lparr>block_size = 1024, vocab_size = 50257, n_layer = 12, n_head = 12,
      n_embd = 768\<rparr>"

text \<open>
  \<open>nn.Linear\<close> and \<open>nn.LayerNorm\<close> act on the last dimension and raise when it is not
  the one they were built for. \<open>nn.Embedding\<close> raises on an index that is negative or not
  below the number of embeddings: \<open>IndexError\<close>, and \<open>RuntimeError\<close> when the table is
  empty. \<open>view\<close> keeps the number of elements. The batched
  matrix product needs equal leading dimensions and matching inner ones. A sum of two
  tensors of the same size has that size.
\<close>

definition linear :: "nat \<Rightarrow> nat \<Rightarrow> shape \<Rightarrow> py_error + shape" where
  "linear in_features out_features x =
     (if x \<noteq> [] \<and> last x = in_features then Inr (butlast x @ [out_features])
      else Inl RuntimeError)"

definition layer_norm :: "nat \<Rightarrow> shape \<Rightarrow> py_error + shape" where
  "layer_norm normalized_shape x =
     (if x \<noteq> [] \<and> last x = normalized_shape then Inr x else Inl RuntimeError)"

definition embedding :: "nat \<Rightarrow> nat \<Rightarrow> shape \<Rightarrow> int list \<Rightarrow> py_error + shape" where
  "embedding num_embeddings embedding_dim x ids =
     (if \<forall>i \<in> set ids. 0 \<le> i \<and> i < int num_embeddings then Inr (x @ [embedding_dim])
      else if num_embeddings = 0 then Inl RuntimeError
      else Inl IndexError)"

definition view :: "shape \<Rightarrow> shape \<Rightarrow> py_error + shape" where
  "view x new = (if prod_list x = prod_list new then Inr new else Inl RuntimeError)"

definition matmul :: "shape \<Rightarrow> shape \<Rightarrow> py_error + shape" where
  "matmul a b =
     (case (a, b) of
        ([b1, h1, n, m], [b2, h2, m', p]) \<Rightarrow>
          if b1 = b2 \<and> h1 = h2 \<and> m = m' then Inr [b1, h1, n, p] else Inl RuntimeError
      | _ \<Rightarrow> Inl RuntimeError)"

definition add_same :: "shape \<Rightarrow> shape \<Rightarrow> py_error + shape" where
  "add_same a b = (if a = b then Inr a else Inl RuntimeError)"

text \<open>
  \<^verbatim>\<open>
  def forward(self, x):
      B, T, C = x.size()
      qkv = self.c_attn(x)
      q, k, v = qkv.split(self.n_embd, dim=2)
      k = k.view(B, T, self.n_head, C // self.n_head).transpose(1, 2) # (B, nh, T, hs)
      q = q.view(B, T, self.n_head, C // self.n_head).transpose(1, 2) # (B, nh, T, hs)
      v = v.view(B, T, self.n_head, C // self.n_head).transpose(1, 2) # (B, nh, T, hs)
      att = (q @ k.transpose(-2, -1)) * (1.0 / math.sqrt(k.size(-1)))
      y = F.scaled_dot_product_attention(q, k, v, is_causal=True)
      y = y.transpose(1, 2).contiguous().view(B, T, C)
      y = self.c_proj(y)
      return y
  \<close>
  \<open>c_attn\<close> is \<open>nn.Linear(n_embd, 3 * n_embd)\<close> and \<open>c_proj\<close> is \<open>nn.Linear(n_embd,
  n_embd)\<close>. With \<open>n_embd = 0\<close> the split does not give three parts; \<open>C // n_head\<close>
  raises for \<open>n_head = 0\<close>, and \<open>1.0 / math.sqrt\<close> of a head size of 0 raises.
\<close>

definition CasualSelfAttention_forward :: "GPTConfig \<Rightarrow> shape \<Rightarrow> py_error + shape" where
  "CasualSelfAttention_forward config x =
     (case x of
        [B, T, C] \<Rightarrow>
          (case linear (n_embd config) (3 * n_embd config) x of
             Inl e \<Rightarrow> Inl e
           | Inr qkv \<Rightarrow>
               if n_embd config = 0 then Inl ValueError
               else if n_head config = 0 then Inl ZeroDivisionError
               else
                 (case view [B, T, n_embd config] [B, T, n_head config, C div n_head config] of
                    Inl e \<Rightarrow> Inl e
                  | Inr kv \<Rightarrow>
                      (let k = [B, n_head config, T, C div n_head config];
                           q = [B, n_head config, T, C div n_head config];
                           v = [B, n_head config, T, C div n_head config]
                       in case matmul q [B, n_head config, C div n_head config, T] of
                            Inl e \<Rightarrow> Inl e
                          | Inr att \<Rightarrow>
                              if C div n_head config = 0 then Inl ZeroDivisionError
                              else
                                (case view [B, T, n_head config, C div n_head config] [B, T, C] of
                                   Inl e \<Rightarrow> Inl e
                                 | Inr y \<Rightarrow> linear (n_embd config) (n_embd config) y))))
      | _ \<Rightarrow> Inl ValueError)"

text \<open>
  \<^verbatim>\<open>
  def forward(self, x):          # MLP
      x = self.c_fc(x)
      x = self.gelu(x)
      x = self.c_proj(x)
      return x

  def forward(self, x):          # Block
      x = x + self.attn(self.ln_1(x))
      x = x + self.mlp(self.ln_2(x))
      return x
  \<close>
\<close>

definition MLP_forward :: "GPTConfig \<Rightarrow> shape \<Rightarrow> py_error + shape" where
  "MLP_forward config x =
     (case linear (n_embd config) (4 * n_embd config) x of
        Inl e \<Rightarrow> Inl e
      | Inr h \<Rightarrow> linear (4 * n_embd config) (n_embd config) h)"

definition Block_forward :: "GPTConfig \<Rightarrow> shape \<Rightarrow> py_error + shape" where
  "Block_forward config x =
     (case layer_norm (n_embd config) x of
        Inl e \<Rightarrow> Inl e
      | Inr n1 \<Rightarrow>
          (case CasualSelfAttention_forward config n1 of
             Inl e \<Rightarrow> Inl e
           | Inr a \<Rightarrow>
               (case add_same x a of
                  Inl e \<Rightarrow> Inl e
                | Inr x1 \<Rightarrow>
                    (case layer_norm (n_embd config) x1 of
                       Inl e \<Rightarrow> Inl e
                     | Inr n2 \<Rightarrow>
                         (case MLP_forward config n2 of
                            Inl e \<Rightarrow> Inl e
                          | Inr m \<Rightarrow> add_same x1 m)))))"

fun blocks_forward :: "GPTConfig \<Rightarrow> nat \<Rightarrow> shape \<Rightarrow> py_error + shape" where
  "blocks_forward config 0 x = Inr x"
| "blocks_forward config (Suc k) x =
     (case Block_forward config x of
        Inl e \<Rightarrow> Inl e
      | Inr x' \<Rightarrow> blocks_forward config k x')"

text \<open>
  The constructor builds \<open>n_layer\<close> blocks; the constructor of each attention layer has
  \<open>assert config.n_embd % config.n_head == 0\<close>. What the forward pass uses of the model is
  its configuration.
  \<^verbatim>\<open>
  def forward(self, idx, targets=None):
      B, T = idx.size()
      assert T <= self.config.block_size, f"Cannot forward sequence lenght {T}, ..."
      pos = torch.arange(0, T, dtype=torch.long, device=idx.device) # shape (T)
      pos_emb = self.transformer.wpe(pos) # postion embedding of shape (T, n_embd)
      tok_emb = self.transformer.wte(idx) # token embedding of shape (B, T, n_embd)
      x = tok_emb + pos_emb
      for block in self.transformer.h:
          x = block(x)
      x = self.transformer.ln_f(x)
      logits = self.lm_head(x) # (B, T, vocab_size)
      loss = None
      if targets is not None:
          loss = F.cross_entropy(logits.view(-1, logits.size(-1)), targets.view(-1))
      return logits, loss
  \<close>
  The result is the size of \<open>logits\<close>. The sum \<open>tok_emb + pos_emb\<close> broadcasts the
  position embedding over the batch dimension.
\<close>

datatype GPT = GPT (gpt_config: GPTConfig)

definition GPT_init :: "GPTConfig \<Rightarrow> py_error + GPT" where
  "GPT_init config =
     (if n_layer config = 0 then Inr (GPT config)
      else if n_head config = 0 then Inl ZeroDivisionError
      else if n_embd config mod n_head config \<noteq> 0 then Inl AssertionError
      else Inr (GPT config))"

definition GPT_forward :: "GPT \<Rightarrow> tensor2d \<Rightarrow> py_error + shape" where
  "GPT_forward self idx =
     (case dims idx of
        (B, T) \<Rightarrow>
          if \<not> T \<le> block_size (gpt_config self) then Inl AssertionError
          else
            (case embedding (block_size (gpt_config self)) (n_embd (gpt_config self)) [T]
                    (map int [0..<T]) of
               Inl e \<Rightarrow> Inl e
             | Inr pos_emb \<Rightarrow>
                 (case embedding (vocab_size (gpt_config self)) (n_embd (gpt_config self)) [B, T]
                         (elems idx) of
                    Inl e \<Rightarrow> Inl e
                  | Inr tok_emb \<Rightarrow>
                      (if drop 1 tok_emb \<noteq> pos_emb then Inl RuntimeError
                       else
                         (case blocks_forward (gpt_config self) (n_layer (gpt_config self)) tok_emb of
                            Inl e \<Rightarrow> Inl e
                          | Inr x \<Rightarrow>
                              (case layer_norm (n_embd (gpt_config self)) x of
                                 Inl e \<Rightarrow> Inl e
                               | Inr xf \<Rightarrow>
                                   linear (n_embd (gpt_config self)) (vocab_size (gpt_config self)) xf))))))"

section \<open>Auxiliary lemmas\<close>

subsection \<open>Loading a shard\<close>

lemma to_long_in_range:
  assumes "- (2 ^ 63) \<le> v" and "v < 2 ^ 63"
  shows "to_long v = v"
proof -
  from assms have "0 \<le> v + 2 ^ 63" and "v + 2 ^ 63 < 2 ^ 64" by simp_all
  then have "(v + 2 ^ 63) mod 2 ^ 64 = v + 2 ^ 63" by (rule mod_pos_pos_trivial)
  then show ?thesis by (simp add: to_long_def)
qed

lemma map_to_long_upt:
  assumes "int b \<le> 2 ^ 63"
  shows "map to_long (map int [a..<b]) = map int [a..<b]"
proof (rule map_idI)
  fix v assume "v \<in> set (map int [a..<b])"
  then obtain k where v: "v = int k" and k: "k < b" by auto
  from k assms have "int k < 2 ^ 63" by linarith
  then show "to_long v = v" unfolding v by (intro to_long_in_range) simp_all
qed

lemma to_long_shards [simp]: "map to_long shard_a = shard_a" "map to_long shard_b = shard_b"
  unfolding shard_a_def shard_b_def by (rule map_to_long_upt, simp)+

subsection \<open>One call of \<open>next_batch\<close>\<close>

lemma view2d_Inr_iff:
  "view2d xs b t = Inr x \<longleftrightarrow> length xs = b * t \<and> x = \<lparr>dims = (b, t), elems = xs\<rparr>"
  by (auto simp: view2d_def)

lemma length_batch_window:
  "length (batch_window self) =
     min (loader_B self * loader_T self + 1) (length (tokens self) - current_position self)"
  by (simp add: batch_window_def py_slice_def)

lemma views_ok_iff:
  "length (butlast (batch_window self)) = loader_B self * loader_T self
     \<and> length (drop 1 (batch_window self)) = loader_B self * loader_T self
   \<longleftrightarrow> loader_B self * loader_T self = 0
        \<or> current_position self + loader_B self * loader_T self + 1 \<le> length (tokens self)"
proof -
  have "(min (n + 1) (L - p) - 1 = n \<and> min (n + 1) (L - p) - 1 = n) = (n = 0 \<or> p + n + 1 \<le> L)"
    for n L p :: nat
    by (auto simp: min_def)
  then show ?thesis
    by (simp only: length_butlast length_drop length_batch_window)
qed

lemma next_batch_unfold:
  "next_batch fs self =
     (if \<not> (loader_B self * loader_T self = 0
              \<or> current_position self + loader_B self * loader_T self + 1 \<le> length (tokens self))
      then Inl RuntimeError
      else if current_position self + loader_B self * loader_T self * num_processes self
                + (loader_B self * loader_T self * num_processes self + 1) > length (tokens self)
      then
        (if shards self = [] then Inl ZeroDivisionError
         else
           (case load_tokens fs (shards self ! ((current_shard self + 1) mod length (shards self))) of
              Inl e \<Rightarrow> Inl e
            | Inr ts \<Rightarrow>
                Inr ((\<lparr>dims = (loader_B self, loader_T self), elems = butlast (batch_window self)\<rparr>,
                      \<lparr>dims = (loader_B self, loader_T self), elems = drop 1 (batch_window self)\<rparr>),
                     self\<lparr>current_shard := (current_shard self + 1) mod length (shards self),
                       tokens := ts,
                       current_position := loader_B self * loader_T self * process_rank self\<rparr>)))
      else Inr ((\<lparr>dims = (loader_B self, loader_T self), elems = butlast (batch_window self)\<rparr>,
                 \<lparr>dims = (loader_B self, loader_T self), elems = drop 1 (batch_window self)\<rparr>),
                self\<lparr>current_position :=
                  current_position self + loader_B self * loader_T self * num_processes self\<rparr>))"
proof -
  have v: "(length (butlast (batch_window self)) = loader_B self * loader_T self
     \<and> length (drop 1 (batch_window self)) = loader_B self * loader_T self)
   = (loader_B self * loader_T self = 0
        \<or> current_position self + loader_B self * loader_T self + 1 \<le> length (tokens self))"
    using views_ok_iff by blast
  show ?thesis
    unfolding next_batch_def Let_def view2d_def
    using v by (auto split: sum.splits)
qed

lemma full_window:
  assumes "p + n + 1 \<le> length xs"
  shows "butlast (py_slice xs p (p + n + 1)) = take n (drop p xs)"
    and "drop 1 (py_slice xs p (p + n + 1)) = take n (drop (p + 1) xs)"
proof -
  have len: "length (take (n + 1) (drop p xs)) = n + 1"
    using assms by simp
  have "butlast (take (n + 1) (drop p xs)) = take n (take (n + 1) (drop p xs))"
    using len by (simp add: butlast_conv_take)
  then show "butlast (py_slice xs p (p + n + 1)) = take n (drop p xs)"
    by (simp add: py_slice_def)
  show "drop 1 (py_slice xs p (p + n + 1)) = take n (drop (p + 1) xs)"
    by (simp add: py_slice_def drop_take)
qed

lemma empty_window:
  assumes "n = 0"
  shows "butlast (py_slice xs p (p + n + 1)) = take n (drop p xs)"
    and "drop 1 (py_slice xs p (p + n + 1)) = take n (drop (p + 1) xs)"
proof -
  have "butlast (take (Suc 0) ys) = []" for ys :: "'a list"
    by (cases ys) simp_all
  with assms show "butlast (py_slice xs p (p + n + 1)) = take n (drop p xs)"
    by (simp add: py_slice_def)
  from assms show "drop 1 (py_slice xs p (p + n + 1)) = take n (drop (p + 1) xs)"
    by (simp add: py_slice_def)
qed

lemma window_batch_at:
  assumes "loader_B self * loader_T self = 0
     \<or> current_position self + loader_B self * loader_T self + 1 \<le> length (tokens self)"
  shows "(\<lparr>dims = (loader_B self, loader_T self), elems = butlast (batch_window self)\<rparr>,
          \<lparr>dims = (loader_B self, loader_T self), elems = drop 1 (batch_window self)\<rparr>)
         = batch_at self (current_position self)"
  using assms full_window [of "current_position self" "loader_B self * loader_T self" "tokens self"]
    empty_window [of "loader_B self * loader_T self" "tokens self" "current_position self"]
  by (auto simp: batch_window_def batch_at_def)

lemma cell_index: "i < b \<Longrightarrow> j < t \<Longrightarrow> i * t + j < b * (t::nat)"
proof -
  assume a: "i < b" "j < t"
  then have "i * t + j < i * t + t" by simp
  also have "\<dots> = Suc i * t" by simp
  also have "\<dots> \<le> b * t" using a(1) by (intro mult_le_mono1) simp
  finally show ?thesis .
qed

lemma next_batch_returned_window:
  assumes "next_batch fs self = Inr ((x, y), self')"
  shows "dims x = (loader_B self, loader_T self) \<and> dims y = (loader_B self, loader_T self)
    \<and> length (elems x) = loader_B self * loader_T self
    \<and> length (elems y) = loader_B self * loader_T self
    \<and> elems x = butlast (batch_window self) \<and> elems y = drop 1 (batch_window self)
    \<and> (0 < loader_B self * loader_T self \<longrightarrow>
          length (batch_window self) = loader_B self * loader_T self + 1)
    \<and> (\<forall>i < loader_B self. \<forall>j < loader_T self.
          current_position self + i * loader_T self + j + 1 < length (tokens self)
          \<and> at2d x i j = tokens self ! (current_position self + i * loader_T self + j)
          \<and> at2d y i j = tokens self ! (current_position self + i * loader_T self + j + 1))"
proof -
  let ?n = "loader_B self * loader_T self"
  let ?p = "current_position self"
  from assms have ok: "?n = 0 \<or> ?p + ?n + 1 \<le> length (tokens self)"
    by (simp add: next_batch_unfold split: if_splits)
  from assms have xy: "x = \<lparr>dims = (loader_B self, loader_T self), elems = butlast (batch_window self)\<rparr>"
    "y = \<lparr>dims = (loader_B self, loader_T self), elems = drop 1 (batch_window self)\<rparr>"
    by (auto simp: next_batch_unfold split: if_splits sum.splits)
  from ok xy window_batch_at [of self] have b: "(x, y) = batch_at self ?p"
    by simp
  then have ex: "elems x = take ?n (drop ?p (tokens self))"
    and ey: "elems y = take ?n (drop (?p + 1) (tokens self))"
    by (simp_all add: batch_at_def)
  have lens: "length (elems x) = ?n" "length (elems y) = ?n"
    using ok xy views_ok_iff [of self] by auto
  have full: "0 < ?n \<longrightarrow> length (batch_window self) = ?n + 1"
    using ok by (auto simp: length_batch_window)
  have cells: "?p + i * loader_T self + j + 1 < length (tokens self)
          \<and> at2d x i j = tokens self ! (?p + i * loader_T self + j)
          \<and> at2d y i j = tokens self ! (?p + i * loader_T self + j + 1)"
    if "i < loader_B self" "j < loader_T self" for i j
  proof -
    from that have k: "i * loader_T self + j < ?n" by (rule cell_index)
    then have "0 < ?n" by (rule le_less_trans [OF le0])
    with ok have in_range: "?p + ?n + 1 \<le> length (tokens self)" by simp
    from k in_range show ?thesis
      by (simp add: at2d_def xy(1) xy(2) ex [unfolded xy(1), simplified] ey [unfolded xy(2), simplified] add.assoc)
  qed
  from xy lens full cells show ?thesis by simp
qed

subsection \<open>Several calls of \<open>next_batch\<close>\<close>

lemma next_batch_no_wrap:
  assumes n: "0 < num_processes self"
    and fit: "current_position self + loader_B self * loader_T self * num_processes self
              + (loader_B self * loader_T self * num_processes self + 1) \<le> length (tokens self)"
  shows "next_batch fs self =
           Inr (batch_at self (current_position self),
                self\<lparr>current_position :=
                  current_position self + loader_B self * loader_T self * num_processes self\<rparr>)"
proof -
  let ?n = "loader_B self * loader_T self"
  from n have "?n \<le> ?n * num_processes self" by simp
  with fit have ok: "current_position self + ?n + 1 \<le> length (tokens self)" by linarith
  then have w: "(\<lparr>dims = (loader_B self, loader_T self), elems = butlast (batch_window self)\<rparr>,
          \<lparr>dims = (loader_B self, loader_T self), elems = drop 1 (batch_window self)\<rparr>)
         = batch_at self (current_position self)"
    by (intro window_batch_at) simp
  from fit have nowrap: "\<not> current_position self + ?n * num_processes self
                + (?n * num_processes self + 1) > length (tokens self)" by simp
  show ?thesis
    unfolding next_batch_unfold using ok nowrap w by simp
qed

lemma next_batch_wrap:
  assumes ok: "current_position self + loader_B self * loader_T self + 1 \<le> length (tokens self)"
    and over: "current_position self + loader_B self * loader_T self * num_processes self
              + (loader_B self * loader_T self * num_processes self + 1) > length (tokens self)"
    and sh: "shards self \<noteq> []"
    and ld: "load_tokens fs (shards self ! ((current_shard self + 1) mod length (shards self))) = Inr ts"
  shows "next_batch fs self =
           Inr (batch_at self (current_position self),
                self\<lparr>current_shard := (current_shard self + 1) mod length (shards self),
                  tokens := ts,
                  current_position := loader_B self * loader_T self * process_rank self\<rparr>)"
proof -
  from ok have w: "(\<lparr>dims = (loader_B self, loader_T self), elems = butlast (batch_window self)\<rparr>,
          \<lparr>dims = (loader_B self, loader_T self), elems = drop 1 (batch_window self)\<rparr>)
         = batch_at self (current_position self)"
    by (intro window_batch_at) simp
  show ?thesis
    unfolding next_batch_unfold using ok over sh ld w by simp
qed

lemma batch_at_position [simp]:
  "batch_at (self\<lparr>current_position := q\<rparr>) p = batch_at self p"
  by (simp add: batch_at_def)

lemma next_batches_no_wrap:
  assumes "0 < num_processes self"
    and "current_position self + loader_B self * loader_T self * num_processes self * k
          + (loader_B self * loader_T self * num_processes self + 1) \<le> length (tokens self)"
  shows "next_batches fs self k =
           Inr (map (\<lambda>i. batch_at self
                      (current_position self + loader_B self * loader_T self * num_processes self * i))
                  [0..<k],
                self\<lparr>current_position :=
                  current_position self + loader_B self * loader_T self * num_processes self * k\<rparr>)"
  using assms
proof (induction k arbitrary: self)
  case 0
  then show ?case by simp
next
  case (Suc k)
  let ?m = "loader_B self * loader_T self * num_processes self"
  let ?self' = "self\<lparr>current_position := current_position self + ?m\<rparr>"
  from Suc.prems(2) have fit1: "current_position self + ?m + (?m + 1) \<le> length (tokens self)"
    by (simp add: algebra_simps)
  have first: "next_batch fs self = Inr (batch_at self (current_position self), ?self')"
    using Suc.prems(1) fit1 by (rule next_batch_no_wrap)
  have rest: "next_batches fs ?self' k =
      Inr (map (\<lambda>i. batch_at ?self' (current_position ?self' + ?m * i)) [0..<k],
           ?self'\<lparr>current_position := current_position ?self' + ?m * k\<rparr>)"
    using Suc.IH [of ?self'] Suc.prems by (simp add: algebra_simps)
  show ?case
    using rest by (simp add: first map_upt_Suc algebra_simps del: upt_Suc)
qed

lemma next_batches_add:
  "next_batches fs self (a + b) =
     (case next_batches fs self a of
        Inl e \<Rightarrow> Inl e
      | Inr (bs, self') \<Rightarrow>
          (case next_batches fs self' b of
             Inl e \<Rightarrow> Inl e
           | Inr (cs, self'') \<Rightarrow> Inr (bs @ cs, self'')))"
  by (induction a arbitrary: self) (auto split: sum.splits)

subsection \<open>The example loaders\<close>

lemma length_shards [simp]: "length shard_a = 1000" "length shard_b = 1000"
  by (simp_all add: shard_a_def shard_b_def)

lemma init_big: "DataLoaderLite_init big_fs (PyStr ''train'') 4 8 0 1 = Inr (on_shard 0)"
  by (simp add: DataLoaderLite_init_def found_shards_def big_fs_def on_shard_def os_listdir_def reset_def
      load_tokens_def to_long_def os_path_join_def data_root_def sublist_code)

lemma load_big:
  "load_tokens big_fs ''edu_fineweb10B/train_a'' = Inr shard_a"
  "load_tokens big_fs ''edu_fineweb10B/train_b'' = Inr shard_b"
  by (simp_all add: big_fs_def load_tokens_def os_path_join_def data_root_def)

lemma big_pass_from:
  assumes s: "s = on_shard i" and i: "i = 0 \<and> j = 1 \<or> i = 1 \<and> j = 0"
  shows "next_batches big_fs s 31 = Inr (big_pass i, on_shard j)"
proof -
  from i have len: "length (tokens s) = 1000"
    by (auto simp: s on_shard_def)
  have cfg: "loader_B s = 4" "loader_T s = 8" "num_processes s = 1" "process_rank s = 0"
    "current_position s = 0" "current_shard s = i"
    "shards s = [''edu_fineweb10B/train_a'', ''edu_fineweb10B/train_b'']"
    by (simp_all add: s on_shard_def)
  have thirty: "next_batches big_fs s 30 =
      Inr (map (\<lambda>k. batch_at s (32 * k)) [0..<30], s\<lparr>current_position := 960\<rparr>)"
    using next_batches_no_wrap [of s 30 big_fs] by (simp add: cfg len)
  let ?t = "s\<lparr>current_position := 960\<rparr>"
  from i have ld: "load_tokens big_fs (shards ?t ! ((current_shard ?t + 1) mod length (shards ?t)))
      = Inr ([shard_a, shard_b] ! j)"
    by (auto simp: cfg load_big)
  from i have nxt: "(current_shard ?t + 1) mod length (shards ?t) = j"
    by (auto simp: cfg)
  have ok: "current_position ?t + loader_B ?t * loader_T ?t + 1 \<le> length (tokens ?t)"
    by (simp add: cfg len)
  have over: "current_position ?t + loader_B ?t * loader_T ?t * num_processes ?t
              + (loader_B ?t * loader_T ?t * num_processes ?t + 1) > length (tokens ?t)"
    by (simp add: cfg len)
  have sh: "shards ?t \<noteq> []"
    by (simp add: cfg)
  have st: "?t\<lparr>current_shard := j, tokens := [shard_a, shard_b] ! j,
              current_position := loader_B ?t * loader_T ?t * process_rank ?t\<rparr> = on_shard j"
    by (simp add: s on_shard_def)
  have last: "next_batch big_fs ?t = Inr (batch_at s 960, on_shard j)"
    using next_batch_wrap [OF ok over sh ld] unfolding nxt st by simp
  have split: "[0..<31] = [0..<30] @ [30::nat]"
    using upt_Suc_append [of 0 30] by (simp del: upt_Suc)
  have "next_batches big_fs s (30 + 1) = Inr (big_pass i, on_shard j)"
    unfolding next_batches_add
    by (simp add: thirty last big_pass_def split s [symmetric] del: upt_Suc)
  then show ?thesis by simp
qed

lemma big_two_more:
  "next_batches big_fs (on_shard 0) 2 =
     Inr ([batch_at (on_shard 0) 0, batch_at (on_shard 0) 32],
          (on_shard 0)\<lparr>current_position := 64\<rparr>)"
proof -
  have cfg: "loader_B (on_shard 0) = 4" "loader_T (on_shard 0) = 8"
    "num_processes (on_shard 0) = 1" "current_position (on_shard 0) = 0"
    "length (tokens (on_shard 0)) = 1000"
    by (simp_all add: on_shard_def)
  have two: "[0..<2] = [0, Suc 0]"
    by (simp add: upt_rec)
  show ?thesis
    using next_batches_no_wrap [of "on_shard 0" 2 big_fs] by (simp add: cfg two del: upt_Suc)
qed

lemma big_run_126:
  "next_batches big_fs (on_shard 0) 126 = Inr (big_run, (on_shard 0)\<lparr>current_position := 64\<rparr>)"
proof -
  have p0: "next_batches big_fs (on_shard 0) 31 = Inr (big_pass 0, on_shard (Suc 0))"
    by (rule big_pass_from) simp_all
  have p1: "next_batches big_fs (on_shard (Suc 0)) 31 = Inr (big_pass (Suc 0), on_shard 0)"
    by (rule big_pass_from) simp_all
  have "next_batches big_fs (on_shard 0) (31 + (31 + (31 + (31 + 2)))) =
      Inr (big_run, (on_shard 0)\<lparr>current_position := 64\<rparr>)"
    unfolding next_batches_add [of _ _ 31] by (simp add: p0 p1 big_two_more big_run_def)
  then show ?thesis by simp
qed

lemma big_run_nth:
  "big_run ! 30 = batch_at (on_shard 0) 960"
  "big_run ! 31 = batch_at (on_shard 1) 0"
  "big_run ! 125 = batch_at (on_shard 0) 32"
proof -
  have len: "length (big_pass i) = 31" for i
    by (simp add: big_pass_def)
  have thirty: "[0..<31] ! 30 = (30::nat)" and zero: "[0..<31] ! 0 = (0::nat)"
    by (simp_all del: upt_Suc)
  show "big_run ! 30 = batch_at (on_shard 0) 960"
    by (simp add: big_run_def nth_append len) (simp add: big_pass_def thirty del: upt_Suc)
  show "big_run ! 31 = batch_at (on_shard 1) 0"
    by (simp add: big_run_def nth_append len) (simp add: big_pass_def zero del: upt_Suc)
  show "big_run ! 125 = batch_at (on_shard 0) 32"
    by (simp add: big_run_def nth_append len)
qed

lemma big_batches:
  "fst (batch_at (on_shard 0) 960) = \<lparr>dims = (4, 8), elems = map int [960..<992]\<rparr>"
  "fst (batch_at (on_shard 1) 0) = \<lparr>dims = (4, 8), elems = map int [1000..<1032]\<rparr>"
  "fst (batch_at (on_shard 0) 32) = \<lparr>dims = (4, 8), elems = map int [32..<64]\<rparr>"
  by (simp_all add: batch_at_def on_shard_def shard_a_def shard_b_def take_map drop_map del: upt_Suc)

lemma init_tiny_train:
  "DataLoaderLite_init tiny_fs (PyStr ''train'') B T rank nproc = Inr (tiny_train B T rank nproc)"
  by (simp add: DataLoaderLite_init_def found_shards_def tiny_fs_def tiny_train_def os_listdir_def reset_def
      load_tokens_def to_long_def os_path_join_def data_root_def sublist_code)

lemma init_tiny_val:
  "DataLoaderLite_init tiny_fs (PyStr ''val'') 2 3 0 1 = Inr tiny_val"
  by (simp add: DataLoaderLite_init_def found_shards_def tiny_fs_def tiny_val_def os_listdir_def reset_def
      load_tokens_def to_long_def os_path_join_def data_root_def sublist_code)

lemma next_batch_tiny_val:
  "next_batch tiny_fs tiny_val =
     Inr ((\<lparr>dims = (2, 3), elems = [10, 11, 12, 13, 14, 15]\<rparr>,
           \<lparr>dims = (2, 3), elems = [11, 12, 13, 14, 15, 16]\<rparr>),
          tiny_val\<lparr>current_position := 6\<rparr>)"
  by (simp add: next_batch_def tiny_val_def batch_window_def py_slice_def view2d_def)

subsection \<open>The learning-rate schedule\<close>

lemma decay_ratio_range:
  assumes "warmup_steps \<le> s" and "s \<le> max_steps"
  shows "0 \<le> real_of_int (s - warmup_steps) / real_of_int (max_steps - warmup_steps)"
    and "real_of_int (s - warmup_steps) / real_of_int (max_steps - warmup_steps) \<le> 1"
proof -
  have pos: "0 < real_of_int (max_steps - warmup_steps)"
    by (simp add: max_steps_def warmup_steps_def)
  from assms(1) show "0 \<le> real_of_int (s - warmup_steps) / real_of_int (max_steps - warmup_steps)"
    using pos by simp
  from assms(2) have "real_of_int (s - warmup_steps) \<le> real_of_int (max_steps - warmup_steps)"
    by simp
  with pos show "real_of_int (s - warmup_steps) / real_of_int (max_steps - warmup_steps) \<le> 1"
    by (simp only: divide_le_eq_1_pos)
qed

lemma get_lr_warmup:
  "s < warmup_steps \<Longrightarrow>
     get_lr s = Inr (max_lr * (real_of_int s + 1) / real_of_int warmup_steps)"
  by (simp add: get_lr_def) (simp add: warmup_steps_def)

lemma get_lr_floor: "s > max_steps \<Longrightarrow> get_lr s = Inr min_lr"
  by (simp add: get_lr_def) (simp add: warmup_steps_def max_steps_def)

lemma get_lr_cosine:
  assumes "warmup_steps \<le> s" and "s \<le> max_steps"
  shows "get_lr s =
     Inr (min_lr + 0.5 * (1 + cos (pi * (real_of_int (s - warmup_steps)
                                          / real_of_int (max_steps - warmup_steps))))
                    * (max_lr - min_lr))"
proof -
  have ne: "max_steps - warmup_steps \<noteq> 0"
    by (simp add: max_steps_def warmup_steps_def)
  from assms have a: "\<not> s < warmup_steps" "\<not> s > max_steps" by simp_all
  show ?thesis
    unfolding get_lr_def Let_def
    using a ne decay_ratio_range [OF assms] by simp
qed

subsection \<open>The accumulation window\<close>

lemma micro_steps_loss:
  assumes "micro_steps fs fwd ddp gas steps st = Inr st'"
  shows "\<exists>bs. next_batches fs (train_loader st) (length steps) = Inr (bs, train_loader st')
          \<and> length bs = length steps
          \<and> loss_accum st' = loss_accum st + (\<Sum>xy\<leftarrow>bs. fwd xy / real_of_int gas)"
  using assms
proof (induction steps arbitrary: st)
  case Nil
  then show ?case by simp
next
  case (Cons i steps)
  from Cons.prems obtain xy loader' where nb: "next_batch fs (train_loader st) = Inr (xy, loader')"
    by (auto simp: micro_step_body_def split: sum.splits)
  define mid where "mid = st\<lparr>train_loader := loader',
      loss_accum := loss_accum st + fwd xy / real_of_int gas,
      model_attrs := (if ddp then (model_attrs st)(''required_backward_grad_sync'' \<mapsto> (i = gas - 1))
                      else model_attrs st),
      grad_sync_log := grad_sync_log st @ [backward_syncs ddp
         (if ddp then (model_attrs st)(''required_backward_grad_sync'' \<mapsto> (i = gas - 1))
          else model_attrs st)]\<rparr>"
  have body: "micro_step_body fs fwd ddp gas i st = Inr mid"
    by (simp add: micro_step_body_def nb mid_def Let_def)
  with Cons.prems have "micro_steps fs fwd ddp gas steps mid = Inr st'" by simp
  from Cons.IH [OF this] obtain bs where
    bs: "next_batches fs (train_loader mid) (length steps) = Inr (bs, train_loader st')"
      "length bs = length steps"
      "loss_accum st' = loss_accum mid + (\<Sum>xy\<leftarrow>bs. fwd xy / real_of_int gas)"
    by blast
  have mid_fields: "train_loader mid = loader'"
    "loss_accum mid = loss_accum st + fwd xy / real_of_int gas"
    by (simp_all add: mid_def)
  have "next_batches fs (train_loader st) (length (i # steps)) = Inr (xy # bs, train_loader st')"
    using nb bs(1) by (simp add: mid_fields)
  moreover have "length (xy # bs) = length (i # steps)"
    using bs(2) by simp
  moreover have "loss_accum st' = loss_accum st + (\<Sum>xy\<leftarrow>xy # bs. fwd xy / real_of_int gas)"
    using bs(3) by (simp add: mid_fields)
  ultimately show ?case by blast
qed

lemma micro_steps_total:
  assumes "next_batches fs (train_loader st) (length steps) = Inr (bs, loader')"
  shows "\<exists>st'. micro_steps fs fwd ddp gas steps st = Inr st'"
  using assms
proof (induction steps arbitrary: st bs)
  case Nil
  then show ?case by simp
next
  case (Cons i steps)
  from Cons.prems obtain xy l1 cs where nb: "next_batch fs (train_loader st) = Inr (xy, l1)"
    and rest: "next_batches fs l1 (length steps) = Inr (cs, loader')"
    by (auto split: sum.splits)
  from nb obtain mid where body: "micro_step_body fs fwd ddp gas i st = Inr mid"
    and l: "train_loader mid = l1"
    by (simp add: micro_step_body_def Let_def)
  from Cons.IH [of mid cs] rest l obtain st' where "micro_steps fs fwd ddp gas steps mid = Inr st'"
    by auto
  with body show ?case by simp
qed

lemma micro_steps_sync_log:
  assumes "micro_steps fs fwd ddp gas steps st = Inr st'"
  shows "grad_sync_log st' =
           grad_sync_log st @ replicate (length steps) (backward_syncs ddp (model_attrs st))
         \<and> model_attrs st' ''require_backward_grad_sync''
             = model_attrs st ''require_backward_grad_sync''"
  using assms
proof (induction steps arbitrary: st)
  case Nil
  then show ?case by simp
next
  case (Cons i steps)
  from Cons.prems obtain mid where body: "micro_step_body fs fwd ddp gas i st = Inr mid"
    and rest: "micro_steps fs fwd ddp gas steps mid = Inr st'"
    by (auto split: sum.splits)
  from body have keep: "model_attrs mid ''require_backward_grad_sync''
      = model_attrs st ''require_backward_grad_sync''"
    and log: "grad_sync_log mid = grad_sync_log st @ [backward_syncs ddp (model_attrs st)]"
    by (auto simp: micro_step_body_def Let_def backward_syncs_def split: sum.splits)
  from keep have same: "backward_syncs ddp (model_attrs mid) = backward_syncs ddp (model_attrs st)"
    by (simp add: backward_syncs_def)
  from Cons.IH [OF rest] show ?case
    by (simp add: keep log same replicate_app_Cons_same)
qed

lemma micro_steps_flag:
  assumes "micro_steps fs fwd True gas (steps @ [i]) st = Inr st'"
  shows "model_attrs st' ''required_backward_grad_sync'' = Some (i = gas - 1)"
  using assms
proof (induction steps arbitrary: st)
  case Nil
  then show ?case
    by (auto simp: micro_step_body_def Let_def split: sum.splits)
next
  case (Cons j steps)
  then show ?case by (auto split: sum.splits)
qed

lemma sum_list_divide:
  "(\<Sum>x\<leftarrow>xs. f x / (c::real)) = (\<Sum>x\<leftarrow>xs. f x) / c"
  by (induction xs) (simp_all add: add_divide_distrib)

lemma length_py_range: "length (py_range n) = nat n"
  by (simp add: py_range_def)

lemma next_batches_tiny_val_2:
  "next_batches tiny_fs tiny_val 2 =
     Inr ([(\<lparr>dims = (2, 3), elems = [10, 11, 12, 13, 14, 15]\<rparr>,
            \<lparr>dims = (2, 3), elems = [11, 12, 13, 14, 15, 16]\<rparr>),
           (\<lparr>dims = (2, 3), elems = [16, 17, 18, 19, 20, 21]\<rparr>,
            \<lparr>dims = (2, 3), elems = [17, 18, 19, 20, 21, 22]\<rparr>)],
          tiny_val)"
  by code_simp

lemma accumulation_window_toy:
  "accumulation_window tiny_fs toy_loss ddp 2 toy_state =
     Inr \<lparr>train_loader = tiny_val, loss_accum = 13,
          model_attrs = (if ddp then DDP_init_attrs(''required_backward_grad_sync'' \<mapsto> True)
                         else DDP_init_attrs),
          grad_sync_log = [ddp, ddp]\<rparr>"
proof -
  have r: "py_range 2 = [0, 1]"
    by (simp add: py_range_def upt_rec)
  have b1: "next_batch tiny_fs tiny_val =
     Inr ((\<lparr>dims = (2, 3), elems = [10, 11, 12, 13, 14, 15]\<rparr>,
           \<lparr>dims = (2, 3), elems = [11, 12, 13, 14, 15, 16]\<rparr>),
          tiny_val\<lparr>current_position := 6\<rparr>)"
    by (rule next_batch_tiny_val)
  have b2: "next_batch tiny_fs (tiny_val\<lparr>current_position := 6\<rparr>) =
     Inr ((\<lparr>dims = (2, 3), elems = [16, 17, 18, 19, 20, 21]\<rparr>,
           \<lparr>dims = (2, 3), elems = [17, 18, 19, 20, 21, 22]\<rparr>),
          tiny_val)"
    by (simp add: next_batch_def tiny_val_def batch_window_def py_slice_def view2d_def
        tiny_fs_def load_tokens_def to_long_def os_path_join_def data_root_def)
  show ?thesis
    by (simp add: accumulation_window_def r micro_step_body_def toy_state_def b1 b2 toy_loss_def
        backward_syncs_def DDP_init_attrs_def)
qed

subsection \<open>Sizes through the forward pass\<close>

lemma attention_shape:
  assumes "0 < n_embd config" and "0 < n_head config" and "n_embd config mod n_head config = 0"
  shows "CasualSelfAttention_forward config [B, T, n_embd config] = Inr [B, T, n_embd config]"
proof -
  let ?E = "n_embd config" and ?h = "n_head config"
  from assms(3) have split: "?h * (?E div ?h) = ?E"
    by (simp add: mod_0_imp_dvd)
  have hs: "?E div ?h \<noteq> 0"
  proof
    assume "?E div ?h = 0"
    with split have "?E = 0" by simp
    with assms(1) show False by simp
  qed
  have v1: "view [B, T, ?E] [B, T, ?h, ?E div ?h] = Inr [B, T, ?h, ?E div ?h]"
    using split by (simp add: view_def)
  have v2: "view [B, T, ?h, ?E div ?h] [B, T, ?E] = Inr [B, T, ?E]"
    using split by (simp add: view_def)
  show ?thesis
    using assms(1,2) hs
    by (simp add: CasualSelfAttention_forward_def linear_def v1 v2 matmul_def)
qed

lemma mlp_shape: "MLP_forward config [B, T, n_embd config] = Inr [B, T, n_embd config]"
  by (simp add: MLP_forward_def linear_def)

lemma block_shape:
  assumes "0 < n_embd config" and "0 < n_head config" and "n_embd config mod n_head config = 0"
  shows "Block_forward config [B, T, n_embd config] = Inr [B, T, n_embd config]"
  by (simp add: Block_forward_def layer_norm_def attention_shape [OF assms] mlp_shape add_same_def)

lemma blocks_shape:
  assumes "k = 0 \<or> (0 < n_embd config \<and> 0 < n_head config \<and> n_embd config mod n_head config = 0)"
  shows "blocks_forward config k [B, T, n_embd config] = Inr [B, T, n_embd config]"
  using assms by (induction k) (simp_all add: block_shape)

lemma positions_in_range:
  "(\<forall>i \<in> set (map int [0..<T]). 0 \<le> i \<and> i < int n) \<longleftrightarrow> T \<le> n"
proof
  assume a: "\<forall>i \<in> set (map int [0..<T]). 0 \<le> i \<and> i < int n"
  show "T \<le> n"
  proof (cases T)
    case 0
    then show ?thesis by simp
  next
    case (Suc k)
    then have "int k \<in> set (map int [0..<T])" by simp
    with a have "int k < int n" by blast
    with Suc show ?thesis by simp
  qed
next
  assume "T \<le> n"
  then show "\<forall>i \<in> set (map int [0..<T]). 0 \<le> i \<and> i < int n" by auto
qed

section \<open>Claims\<close>

subsection \<open>C1\<close>

text \<open>
  C1, as stated, fails. \<open>next_batch\<close> cuts the batch first, at the position and from the
  shard it finds on entry, and only then advances and tests for the wrap. For rank 1 of 2
  with \<open>B = 1\<close>, \<open>T = 4\<close> on shards of 10 tokens, the first call is entered with
  \<open>current_position + B * T * n + 1 > 10\<close> and still returns tokens 34 to 38 of shard 0.
  With \<open>B = 4\<close>, \<open>T = 8\<close>, one process and shards of 1000 tokens, the 126th call returns
  the window at position 32 of a shard, and it is the 32nd call that returns the start of
  the next shard.
\<close>

theorem wrap_before_slice_counterexample:
  "DataLoaderLite_init tiny_fs (PyStr ''train'') 1 4 1 2 = Inr (tiny_train 1 4 1 2)
   \<and> current_position (tiny_train 1 4 1 2) + 1 * 4 * 2 + 1 > length (tokens (tiny_train 1 4 1 2))
   \<and> next_batch tiny_fs (tiny_train 1 4 1 2) =
       Inr ((\<lparr>dims = (1, 4), elems = [34, 35, 36, 37]\<rparr>,
             \<lparr>dims = (1, 4), elems = [35, 36, 37, 38]\<rparr>),
            (tiny_train 1 4 1 2)\<lparr>current_shard := 1,
               tokens := [40, 41, 42, 43, 44, 45, 46, 47, 48, 49], current_position := 4\<rparr>)
   \<and> DataLoaderLite_init big_fs (PyStr ''train'') 4 8 0 1 = Inr (on_shard 0)
   \<and> next_batches big_fs (on_shard 0) 126 = Inr (big_run, (on_shard 0)\<lparr>current_position := 64\<rparr>)
   \<and> fst (big_run ! 125) = \<lparr>dims = (4, 8), elems = map int [32..<64]\<rparr>
   \<and> fst (big_run ! 31) = \<lparr>dims = (4, 8), elems = map int [1000..<1032]\<rparr>"
proof -
  have small: "next_batch tiny_fs (tiny_train 1 4 1 2) =
       Inr ((\<lparr>dims = (1, 4), elems = [34, 35, 36, 37]\<rparr>,
             \<lparr>dims = (1, 4), elems = [35, 36, 37, 38]\<rparr>),
            (tiny_train 1 4 1 2)\<lparr>current_shard := 1,
               tokens := [40, 41, 42, 43, 44, 45, 46, 47, 48, 49], current_position := 4\<rparr>)"
    by (simp add: next_batch_def tiny_train_def batch_window_def py_slice_def view2d_def
        tiny_fs_def load_tokens_def to_long_def os_path_join_def data_root_def)
  have late: "current_position (tiny_train 1 4 1 2) + 1 * 4 * 2 + 1
                > length (tokens (tiny_train 1 4 1 2))"
    by (simp add: tiny_train_def)
  from init_tiny_train small late init_big big_run_126 big_run_nth(2,3) big_batches(2,3)
  show ?thesis by (simp only: simp_thms)
qed

text \<open>
  C1, amended: a call that returns has cut its batch at the entry position of the shard
  resident on entry. It then advances \<open>current_position\<close> by \<open>B * T * n\<close>; when the read
  after that one would exceed the shard (\<open>current_position + 2 * B * T * n + 1\<close> on entry
  is more than the shard's token count), it loads shard \<open>(current_shard + 1) mod
  num_shards\<close> and sets \<open>current_position\<close> to \<open>B * T * r\<close>, so the following call
  returns tokens from the new shard at the rank's base offset.
\<close>

theorem next_batch_slices_then_wraps:
  assumes "next_batch fs self = Inr ((x, y), self')"
  shows "(x, y) = batch_at self (current_position self)
    \<and> (if current_position self + loader_B self * loader_T self * num_processes self
            + (loader_B self * loader_T self * num_processes self + 1) > length (tokens self)
        then current_shard self' = (current_shard self + 1) mod length (shards self)
           \<and> load_tokens fs (shards self ! current_shard self') = Inr (tokens self')
           \<and> current_position self' = loader_B self * loader_T self * process_rank self
        else current_shard self' = current_shard self
           \<and> tokens self' = tokens self
           \<and> current_position self' =
               current_position self + loader_B self * loader_T self * num_processes self)
    \<and> loader_B self' = loader_B self \<and> loader_T self' = loader_T self
    \<and> process_rank self' = process_rank self \<and> num_processes self' = num_processes self
    \<and> shards self' = shards self"
proof -
  from assms have ok: "loader_B self * loader_T self = 0
      \<or> current_position self + loader_B self * loader_T self + 1 \<le> length (tokens self)"
    by (simp add: next_batch_unfold split: if_splits)
  from assms have xy: "(x, y) =
      (\<lparr>dims = (loader_B self, loader_T self), elems = butlast (batch_window self)\<rparr>,
       \<lparr>dims = (loader_B self, loader_T self), elems = drop 1 (batch_window self)\<rparr>)"
    by (auto simp: next_batch_unfold split: if_splits sum.splits)
  have cut: "(x, y) = batch_at self (current_position self)"
    unfolding xy using ok by (rule window_batch_at)
  from assms have rest: "(if current_position self + loader_B self * loader_T self * num_processes self
            + (loader_B self * loader_T self * num_processes self + 1) > length (tokens self)
        then current_shard self' = (current_shard self + 1) mod length (shards self)
           \<and> load_tokens fs (shards self ! current_shard self') = Inr (tokens self')
           \<and> current_position self' = loader_B self * loader_T self * process_rank self
        else current_shard self' = current_shard self
           \<and> tokens self' = tokens self
           \<and> current_position self' =
               current_position self + loader_B self * loader_T self * num_processes self)
    \<and> loader_B self' = loader_B self \<and> loader_T self' = loader_T self
    \<and> process_rank self' = process_rank self \<and> num_processes self' = num_processes self
    \<and> shards self' = shards self"
    by (auto simp: next_batch_unfold split: if_splits sum.splits)
  from cut rest show ?thesis by (rule conjI)
qed

theorem next_batch_slices_then_wraps_witness:
  "next_batches big_fs (on_shard 0) 30 =
     Inr (map (\<lambda>k. batch_at (on_shard 0) (32 * k)) [0..<30], (on_shard 0)\<lparr>current_position := 960\<rparr>)
   \<and> next_batch big_fs ((on_shard 0)\<lparr>current_position := 960\<rparr>) =
       Inr (batch_at (on_shard 0) 960, on_shard 1)
   \<and> fst (batch_at (on_shard 0) 960) = \<lparr>dims = (4, 8), elems = map int [960..<992]\<rparr>
   \<and> current_shard (on_shard 1) = 1 \<and> current_position (on_shard 1) = 0
   \<and> load_tokens big_fs (shards (on_shard 0) ! 1) = Inr (tokens (on_shard 1))
   \<and> next_batch big_fs (on_shard 1) =
       Inr (batch_at (on_shard 1) 0, (on_shard 1)\<lparr>current_position := 32\<rparr>)
   \<and> fst (batch_at (on_shard 1) 0) = \<lparr>dims = (4, 8), elems = map int [1000..<1032]\<rparr>"
proof -
  let ?t = "(on_shard 0)\<lparr>current_position := 960\<rparr>"
  have cfg: "loader_B (on_shard i) = 4" "loader_T (on_shard i) = 8"
    "num_processes (on_shard i) = 1" "current_position (on_shard i) = 0"
    "process_rank (on_shard i) = 0" "current_shard (on_shard i) = i"
    "shards (on_shard i) = [''edu_fineweb10B/train_a'', ''edu_fineweb10B/train_b'']" for i
    by (simp_all add: on_shard_def)
  have len: "length (tokens (on_shard 0)) = 1000" "length (tokens (on_shard 1)) = 1000"
    "length (tokens (on_shard (Suc 0))) = 1000"
    by (simp_all add: on_shard_def)
  have thirty: "next_batches big_fs (on_shard 0) 30 =
     Inr (map (\<lambda>k. batch_at (on_shard 0) (32 * k)) [0..<30], ?t)"
    using next_batches_no_wrap [of "on_shard 0" 30 big_fs] by (simp add: cfg len)
  have ld: "load_tokens big_fs (shards ?t ! ((current_shard ?t + 1) mod length (shards ?t)))
      = Inr shard_b"
    by (simp add: cfg load_big)
  have "next_batch big_fs ?t =
      Inr (batch_at ?t (current_position ?t),
           ?t\<lparr>current_shard := (current_shard ?t + 1) mod length (shards ?t), tokens := shard_b,
              current_position := loader_B ?t * loader_T ?t * process_rank ?t\<rparr>)"
    by (rule next_batch_wrap [OF _ _ _ ld]) (simp_all add: cfg len)
  moreover have "?t\<lparr>current_shard := (current_shard ?t + 1) mod length (shards ?t),
      tokens := shard_b, current_position := loader_B ?t * loader_T ?t * process_rank ?t\<rparr>
      = on_shard 1"
    by (simp add: on_shard_def)
  ultimately have wrap: "next_batch big_fs ?t = Inr (batch_at (on_shard 0) 960, on_shard 1)"
    by simp
  have after: "current_shard (on_shard 1) = 1 \<and> current_position (on_shard 1) = 0
      \<and> load_tokens big_fs (shards (on_shard 0) ! 1) = Inr (tokens (on_shard 1))"
    using next_batch_slices_then_wraps [of big_fs ?t "fst (batch_at (on_shard 0) 960)"
        "snd (batch_at (on_shard 0) 960)" "on_shard 1"] wrap
    by (simp add: cfg len)
  have first: "next_batch big_fs (on_shard 1) =
       Inr (batch_at (on_shard 1) 0, (on_shard 1)\<lparr>current_position := 32\<rparr>)"
    using next_batch_no_wrap [of "on_shard 1" big_fs] by (simp add: cfg len)
  from thirty wrap big_batches(1) after first big_batches(2) show ?thesis
    by (simp only: simp_thms)
qed

subsection \<open>C2\<close>

text \<open>
  C2, as stated, fails: a call whose window of \<open>B * T + 1\<close> tokens runs past the end of
  the shard returns no pair. With \<open>B = 4\<close>, \<open>T = 8\<close> on a shard of 10 tokens the slice holds
  10 tokens and \<open>view(B, T)\<close> raises.
\<close>

theorem next_batch_short_window_counterexample:
  "current_position (tiny_train 4 8 0 1) + 4 * 8 + 1 > length (tokens (tiny_train 4 8 0 1))
   \<and> next_batch tiny_fs (tiny_train 4 8 0 1) = Inl RuntimeError"
  by (simp add: next_batch_def tiny_train_def batch_window_def py_slice_def view2d_def)

text \<open>
  C2, amended: \<open>next_batch\<close> returns a pair exactly when the window of \<open>B * T + 1\<close> tokens
  at \<open>current_position\<close> lies inside the resident shard (or \<open>B * T = 0\<close>) and, when the
  call wraps, the next shard loads; when the window does not lie inside the shard it
  raises \<open>RuntimeError\<close>. Whenever it returns \<open>(x, y)\<close>, both tensors have size
  \<open>(B, T)\<close>; they are cut from that window, which holds \<open>B * T + 1\<close> tokens (when
  \<open>B * T > 0\<close>); entry \<open>(i, j)\<close> of \<open>x\<close> is token \<open>current_position + i * T + j\<close> of the
  shard and entry \<open>(i, j)\<close> of \<open>y\<close> is the token right after it.
\<close>

theorem next_batch_window:
  "((\<exists>x y self'. next_batch fs self = Inr ((x, y), self')) \<longleftrightarrow>
      (loader_B self * loader_T self = 0
         \<or> current_position self + loader_B self * loader_T self + 1 \<le> length (tokens self))
      \<and> (length (tokens self)
             < current_position self + loader_B self * loader_T self * num_processes self
                 + (loader_B self * loader_T self * num_processes self + 1)
           \<longrightarrow> shards self \<noteq> []
               \<and> (\<exists>ts. load_tokens fs
                          (shards self ! ((current_shard self + 1) mod length (shards self)))
                        = Inr ts)))
   \<and> (\<not> (loader_B self * loader_T self = 0
            \<or> current_position self + loader_B self * loader_T self + 1 \<le> length (tokens self))
        \<longrightarrow> next_batch fs self = Inl RuntimeError)
   \<and> (\<forall>x y self'. next_batch fs self = Inr ((x, y), self') \<longrightarrow>
          dims x = (loader_B self, loader_T self) \<and> dims y = (loader_B self, loader_T self)
          \<and> length (elems x) = loader_B self * loader_T self
          \<and> length (elems y) = loader_B self * loader_T self
          \<and> elems x = butlast (batch_window self) \<and> elems y = drop 1 (batch_window self)
          \<and> (0 < loader_B self * loader_T self \<longrightarrow>
                length (batch_window self) = loader_B self * loader_T self + 1)
          \<and> (\<forall>i < loader_B self. \<forall>j < loader_T self.
                current_position self + i * loader_T self + j + 1 < length (tokens self)
                \<and> at2d x i j = tokens self ! (current_position self + i * loader_T self + j)
                \<and> at2d y i j = tokens self ! (current_position self + i * loader_T self + j + 1)))"
proof -
  have returns: "(\<exists>x y self'. next_batch fs self = Inr ((x, y), self')) \<longleftrightarrow>
      (loader_B self * loader_T self = 0
         \<or> current_position self + loader_B self * loader_T self + 1 \<le> length (tokens self))
      \<and> (length (tokens self)
             < current_position self + loader_B self * loader_T self * num_processes self
                 + (loader_B self * loader_T self * num_processes self + 1)
           \<longrightarrow> shards self \<noteq> []
               \<and> (\<exists>ts. load_tokens fs
                          (shards self ! ((current_shard self + 1) mod length (shards self)))
                        = Inr ts))"
    unfolding next_batch_unfold by (auto split: sum.splits)
  have short: "\<not> (loader_B self * loader_T self = 0
            \<or> current_position self + loader_B self * loader_T self + 1 \<le> length (tokens self))
        \<longrightarrow> next_batch fs self = Inl RuntimeError"
    unfolding next_batch_unfold by simp
  have cut: "\<forall>x y self'. next_batch fs self = Inr ((x, y), self') \<longrightarrow>
    dims x = (loader_B self, loader_T self) \<and> dims y = (loader_B self, loader_T self)
        \<and> length (elems x) = loader_B self * loader_T self
        \<and> length (elems y) = loader_B self * loader_T self
        \<and> elems x = butlast (batch_window self) \<and> elems y = drop 1 (batch_window self)
        \<and> (0 < loader_B self * loader_T self \<longrightarrow>
              length (batch_window self) = loader_B self * loader_T self + 1)
        \<and> (\<forall>i < loader_B self. \<forall>j < loader_T self.
              current_position self + i * loader_T self + j + 1 < length (tokens self)
              \<and> at2d x i j = tokens self ! (current_position self + i * loader_T self + j)
              \<and> at2d y i j = tokens self ! (current_position self + i * loader_T self + j + 1))"
    by (intro allI impI) (rule next_batch_returned_window)
  from returns short cut show ?thesis by (intro conjI)
qed

theorem next_batch_window_witness:
  "next_batch tiny_fs tiny_val =
     Inr ((\<lparr>dims = (2, 3), elems = [10, 11, 12, 13, 14, 15]\<rparr>,
           \<lparr>dims = (2, 3), elems = [11, 12, 13, 14, 15, 16]\<rparr>),
          tiny_val\<lparr>current_position := 6\<rparr>)
   \<and> batch_window tiny_val = [10, 11, 12, 13, 14, 15, 16]
   \<and> at2d \<lparr>dims = (2, 3), elems = [10, 11, 12, 13, 14, 15]\<rparr> 1 2 = tokens tiny_val ! 5
   \<and> at2d \<lparr>dims = (2, 3), elems = [11, 12, 13, 14, 15, 16]\<rparr> 1 2 = tokens tiny_val ! 6"
proof -
  have w: "batch_window tiny_val = [10, 11, 12, 13, 14, 15, 16]"
    by (simp add: tiny_val_def batch_window_def py_slice_def)
  let ?x = "\<lparr>dims = (2, 3), elems = [10, 11, 12, 13, 14, 15]\<rparr>"
  let ?y = "\<lparr>dims = (2, 3), elems = [11, 12, 13, 14, 15, 16]\<rparr>"
  have all: "\<forall>i < loader_B tiny_val. \<forall>j < loader_T tiny_val.
      current_position tiny_val + i * loader_T tiny_val + j + 1 < length (tokens tiny_val)
      \<and> at2d ?x i j = tokens tiny_val ! (current_position tiny_val + i * loader_T tiny_val + j)
      \<and> at2d ?y i j = tokens tiny_val ! (current_position tiny_val + i * loader_T tiny_val + j + 1)"
    using next_batch_window [of tiny_fs tiny_val, THEN conjunct2, THEN conjunct2, THEN spec,
        THEN spec, THEN spec, THEN mp, OF next_batch_tiny_val]
    by (elim conjE)
  have cfg: "loader_B tiny_val = 2" "loader_T tiny_val = 3" "current_position tiny_val = 0"
    by (simp_all add: tiny_val_def)
  have "at2d ?x 1 2 = tokens tiny_val ! (current_position tiny_val + 1 * loader_T tiny_val + 2)
      \<and> at2d ?y 1 2 = tokens tiny_val ! (current_position tiny_val + 1 * loader_T tiny_val + 2 + 1)"
    using all cfg by simp
  then have cells: "at2d ?x 1 2 = tokens tiny_val ! 5" "at2d ?y 1 2 = tokens tiny_val ! 6"
    by (simp_all add: cfg)
  from next_batch_tiny_val w cells show ?thesis
    by (simp only: simp_thms)
qed

subsection \<open>C3\<close>

text \<open>
  C3: \<open>reset\<close> followed by \<open>k\<close> calls of \<open>next_batch\<close> gives the same batches (and
  leaves the same object) from any two loaders that agree on \<open>B\<close>, \<open>T\<close>,
  \<open>process_rank\<close>, \<open>num_processes\<close> and the shard list, on the same shard contents:
  the result does not depend on what the loader did before the \<open>reset\<close>.
\<close>

theorem reset_then_batches_deterministic:
  assumes "loader_B a = loader_B b" and "loader_T a = loader_T b"
    and "process_rank a = process_rank b" and "num_processes a = num_processes b"
    and "shards a = shards b"
  shows "reset_then_batches fs a k = reset_then_batches fs b k"
proof -
  have "reset fs a = reset fs b"
  proof (cases "shards b")
    case Nil
    with assms show ?thesis by (simp add: reset_def)
  next
    case (Cons s0 rest)
    show ?thesis
    proof (cases "load_tokens fs s0")
      case (Inl e)
      with Cons assms show ?thesis by (simp add: reset_def)
    next
      case (Inr ts)
      have "a\<lparr>current_shard := 0, tokens := ts,
               current_position := loader_B a * loader_T a * process_rank a\<rparr>
          = b\<lparr>current_shard := 0, tokens := ts,
               current_position := loader_B b * loader_T b * process_rank b\<rparr>"
        using assms by (intro DataLoaderLite.equality) simp_all
      with Cons Inr assms show ?thesis by (simp add: reset_def)
    qed
  qed
  then show ?thesis by (simp add: reset_then_batches_def)
qed

theorem reset_then_batches_deterministic_witness:
  "reset_then_batches tiny_fs tiny_val 2 =
     reset_then_batches tiny_fs (tiny_val\<lparr>current_shard := 7, tokens := [1, 2, 3],
        current_position := 12\<rparr>) 2
   \<and> reset_then_batches tiny_fs tiny_val 2 =
       Inr ([(\<lparr>dims = (2, 3), elems = [10, 11, 12, 13, 14, 15]\<rparr>,
              \<lparr>dims = (2, 3), elems = [11, 12, 13, 14, 15, 16]\<rparr>),
             (\<lparr>dims = (2, 3), elems = [16, 17, 18, 19, 20, 21]\<rparr>,
              \<lparr>dims = (2, 3), elems = [17, 18, 19, 20, 21, 22]\<rparr>)],
            tiny_val)"
proof -
  have same: "reset_then_batches tiny_fs tiny_val 2 =
     reset_then_batches tiny_fs (tiny_val\<lparr>current_shard := 7, tokens := [1, 2, 3],
        current_position := 12\<rparr>) 2"
    by (rule reset_then_batches_deterministic) simp_all
  have run: "reset_then_batches tiny_fs tiny_val 2 =
       Inr ([(\<lparr>dims = (2, 3), elems = [10, 11, 12, 13, 14, 15]\<rparr>,
              \<lparr>dims = (2, 3), elems = [11, 12, 13, 14, 15, 16]\<rparr>),
             (\<lparr>dims = (2, 3), elems = [16, 17, 18, 19, 20, 21]\<rparr>,
              \<lparr>dims = (2, 3), elems = [17, 18, 19, 20, 21, 22]\<rparr>)],
            tiny_val)"
    by code_simp
  from same run show ?thesis by (rule conjI)
qed

subsection \<open>C4\<close>

text \<open>
  C4: on the code, no construction succeeds, whatever shards the data directory holds.
  Both call sites pass \<open>split\<close> as a keyword, which \<open>__init__\<close> does not declare, and
  the call raises \<open>TypeError\<close>. A call without the keyword reads the module's \<open>split\<close>,
  the function imported from numpy, and fails the first assertion. On the directory
  \<open>tiny_fs\<close>, which holds two training shards and a validation shard, both calls fail.
\<close>

theorem DataLoaderLite_call_fails:
  "DataLoaderLite_call fs B T rank nproc (Some sp) = Inl TypeError
   \<and> DataLoaderLite_call fs B T rank nproc None = Inl AssertionError
   \<and> DataLoaderLite_call tiny_fs 2 3 0 1 (Some ''val'') = Inl TypeError
   \<and> DataLoaderLite_call tiny_fs 2 3 0 1 None = Inl AssertionError"
  by (simp add: DataLoaderLite_call_def DataLoaderLite_init_def module_split_def)

subsection \<open>C5\<close>

text \<open>
  C5: \<open>get_lr\<close> is a function of the step alone and never raises. Below \<open>warmup_steps\<close>
  it is \<open>max_lr * (s + 1) / warmup_steps\<close>; above \<open>max_steps\<close> it is \<open>min_lr = 0.1 *
  max_lr\<close>; in between the decay ratio lies in \<open>[0, 1]\<close>, so the assertion holds, and the
  value is the cosine interpolation at that ratio, unclamped. \<open>get_lr 0 = max_lr /
  warmup_steps\<close> and \<open>get_lr max_steps = min_lr\<close>. The phases meet at both boundaries:
  the last warmup step and the first cosine step both give \<open>max_lr\<close>, the last cosine step
  and the first step after it both give \<open>min_lr\<close>.
\<close>

theorem get_lr_three_phases:
  "(s < warmup_steps \<longrightarrow>
      get_lr s = Inr (max_lr * (real_of_int s + 1) / real_of_int warmup_steps))
   \<and> (s > max_steps \<longrightarrow> get_lr s = Inr min_lr)
   \<and> min_lr = 0.1 * max_lr
   \<and> (warmup_steps \<le> s \<and> s \<le> max_steps \<longrightarrow>
        0 \<le> real_of_int (s - warmup_steps) / real_of_int (max_steps - warmup_steps)
        \<and> real_of_int (s - warmup_steps) / real_of_int (max_steps - warmup_steps) \<le> 1
        \<and> get_lr s =
            Inr (min_lr + 0.5 * (1 + cos (pi * (real_of_int (s - warmup_steps)
                                                 / real_of_int (max_steps - warmup_steps))))
                           * (max_lr - min_lr)))
   \<and> (\<forall>e. get_lr s \<noteq> Inl e)
   \<and> get_lr 0 = Inr (max_lr / real_of_int warmup_steps)
   \<and> get_lr max_steps = Inr min_lr
   \<and> get_lr (warmup_steps - 1) = Inr max_lr \<and> get_lr warmup_steps = Inr max_lr
   \<and> get_lr (max_steps + 1) = Inr min_lr"
proof -
  have total: "\<forall>e. get_lr s \<noteq> Inl e"
  proof (cases "s < warmup_steps")
    case True
    then show ?thesis by (simp add: get_lr_warmup)
  next
    case False
    show ?thesis
    proof (cases "s > max_steps")
      case True
      then show ?thesis by (simp add: get_lr_floor)
    next
      case False
      with \<open>\<not> s < warmup_steps\<close> show ?thesis by (simp add: get_lr_cosine)
    qed
  qed
  have zero: "get_lr 0 = Inr (max_lr / real_of_int warmup_steps)"
    using get_lr_warmup [of 0] by (simp add: warmup_steps_def)
  have le: "warmup_steps \<le> max_steps"
    by (simp add: warmup_steps_def max_steps_def)
  have last: "get_lr max_steps = Inr min_lr"
    using get_lr_cosine [of max_steps] le
    by (simp add: max_steps_def warmup_steps_def)
  have before: "get_lr (warmup_steps - 1) = Inr max_lr"
    using get_lr_warmup [of "warmup_steps - 1"] by (simp add: warmup_steps_def)
  have start: "get_lr warmup_steps = Inr max_lr"
    using get_lr_cosine [of warmup_steps] le by simp
  have after: "get_lr (max_steps + 1) = Inr min_lr"
    by (rule get_lr_floor) simp
  have floor: "min_lr = 0.1 * max_lr"
    by (simp add: min_lr_def)
  from total zero last before start after floor get_lr_warmup [of s] get_lr_floor [of s]
    get_lr_cosine [of s] decay_ratio_range [of s]
  show ?thesis by blast
qed

theorem get_lr_three_phases_witness:
  "get_lr 9 = Inr (max_lr * 10 / 715)
   \<and> get_lr 80000 = Inr min_lr
   \<and> get_lr 38503 = Inr (min_lr + 0.5 * (1 + cos (pi * (37788 / 75577))) * (max_lr - min_lr))
   \<and> get_lr 0 = Inr (max_lr / 715)
   \<and> get_lr 76292 = Inr min_lr"
  using get_lr_three_phases [of 9] get_lr_three_phases [of 80000] get_lr_three_phases [of 38503]
  by (simp add: warmup_steps_def max_steps_def)

subsection \<open>C6\<close>

text \<open>
  C6: the startup check succeeds exactly when \<open>B * T * world_size\<close> divides
  \<open>total_batch_size\<close>; otherwise it raises (the assertion, or the division by zero of
  the \<open>%\<close> when the world size is 0). When it succeeds, the computed
  \<open>grad_accum_steps\<close> satisfies \<open>B * T * world_size * grad_accum_steps = total_batch_size\<close>.
\<close>

theorem grad_accum_steps_exact:
  "((\<exists>g. grad_accum_steps ws = Inr g) \<longleftrightarrow> global_B * global_T * ws dvd total_batch_size)
   \<and> (\<forall>g. grad_accum_steps ws = Inr g \<longrightarrow> global_B * global_T * ws * g = total_batch_size)
   \<and> (\<forall>e. grad_accum_steps ws = Inl e \<longrightarrow> e = AssertionError \<or> e = ZeroDivisionError)"
proof -
  define d where "d = global_B * global_T * ws"
  have run: "grad_accum_steps ws =
      (if d = 0 then Inl ZeroDivisionError
       else if total_batch_size mod d \<noteq> 0 then Inl AssertionError
       else Inr (total_batch_size div d))"
    unfolding grad_accum_steps_def d_def ..
  have nonzero: "total_batch_size \<noteq> 0"
    by (simp add: total_batch_size_def)
  have "((\<exists>g. grad_accum_steps ws = Inr g) \<longleftrightarrow> d dvd total_batch_size)
   \<and> (\<forall>g. grad_accum_steps ws = Inr g \<longrightarrow> d * g = total_batch_size)
   \<and> (\<forall>e. grad_accum_steps ws = Inl e \<longrightarrow> e = AssertionError \<or> e = ZeroDivisionError)"
  proof (cases "d = 0")
    case True
    with nonzero show ?thesis unfolding run by simp
  next
    case False
    then show ?thesis unfolding run by (auto simp: dvd_eq_mod_eq_0)
  qed
  then show ?thesis unfolding d_def .
qed

theorem grad_accum_steps_exact_witness:
  "grad_accum_steps 1 = Inr 8 \<and> global_B * global_T * 1 * 8 = total_batch_size
   \<and> grad_accum_steps 3 = Inl AssertionError \<and> grad_accum_steps 0 = Inl ZeroDivisionError"
  using grad_accum_steps_exact [of 1] grad_accum_steps_exact [of 3] grad_accum_steps_exact [of 0]
  by (simp add: grad_accum_steps_def global_B_def global_T_def total_batch_size_def)

subsection \<open>C7\<close>

text \<open>
  C7: with \<open>grad_accum_steps > 0\<close>, an accumulation window that completes has fetched
  \<open>grad_accum_steps\<close> batches in order; \<open>loss_accum\<close> is the sum of the micro-losses each
  divided by \<open>grad_accum_steps\<close>, which is their arithmetic mean, and when every
  micro-loss is the mean of \<open>n\<close> per-position losses it is the mean over all
  \<open>grad_accum_steps * n\<close> positions, the loss of the one large batch. The window
  completes whenever the loader can deliver the batches.
\<close>

theorem loss_accum_is_mean:
  assumes "0 < gas"
  shows "(\<forall>st'. accumulation_window fs fwd ddp gas st = Inr st' \<longrightarrow>
            (\<exists>bs. next_batches fs (train_loader st) (nat gas) = Inr (bs, train_loader st')
               \<and> length bs = nat gas
               \<and> loss_accum st' = (\<Sum>xy\<leftarrow>bs. fwd xy / real_of_int gas)
               \<and> loss_accum st' = (\<Sum>xy\<leftarrow>bs. fwd xy) / real (length bs)
               \<and> (\<forall>n tok_loss.
                     0 < n \<and> (\<forall>xy \<in> set bs. fwd xy = (\<Sum>k<n. tok_loss xy k) / real n)
                     \<longrightarrow> loss_accum st' = (\<Sum>xy\<leftarrow>bs. \<Sum>k<n. tok_loss xy k) / real (length bs * n))))
       \<and> (\<forall>bs loader'. next_batches fs (train_loader st) (nat gas) = Inr (bs, loader')
             \<longrightarrow> (\<exists>st'. accumulation_window fs fwd ddp gas st = Inr st'))"
proof (intro conjI allI impI)
  fix st' assume run: "accumulation_window fs fwd ddp gas st = Inr st'"
  from run micro_steps_loss [of fs fwd ddp gas "py_range gas" "st\<lparr>loss_accum := 0\<rparr>" st']
  obtain bs where bs: "next_batches fs (train_loader st) (nat gas) = Inr (bs, train_loader st')"
    "length bs = nat gas" "loss_accum st' = (\<Sum>xy\<leftarrow>bs. fwd xy / real_of_int gas)"
    by (auto simp: accumulation_window_def length_py_range)
  from assms bs(2) have len: "real (length bs) = real_of_int gas" by simp
  have mean: "loss_accum st' = (\<Sum>xy\<leftarrow>bs. fwd xy) / real (length bs)"
    by (simp add: bs(3) sum_list_divide len)
  have large: "loss_accum st' = (\<Sum>xy\<leftarrow>bs. \<Sum>k<n. tok_loss xy k) / real (length bs * n)"
    if n: "0 < n" and fwd: "\<forall>xy \<in> set bs. fwd xy = (\<Sum>k<n. tok_loss xy k) / real n"
    for n :: nat and tok_loss :: "batch \<Rightarrow> nat \<Rightarrow> real"
  proof -
    from fwd have "map fwd bs = map (\<lambda>xy. (\<Sum>k<n. tok_loss xy k) / real n) bs"
      by simp
    then have "(\<Sum>xy\<leftarrow>bs. fwd xy) = (\<Sum>xy\<leftarrow>bs. (\<Sum>k<n. tok_loss xy k) / real n)"
      by (rule arg_cong)
    also have "\<dots> = (\<Sum>xy\<leftarrow>bs. \<Sum>k<n. tok_loss xy k) / real n"
      by (rule sum_list_divide)
    finally show ?thesis
      by (simp add: mean mult.commute)
  qed
  show "\<exists>bs. next_batches fs (train_loader st) (nat gas) = Inr (bs, train_loader st')
               \<and> length bs = nat gas
               \<and> loss_accum st' = (\<Sum>xy\<leftarrow>bs. fwd xy / real_of_int gas)
               \<and> loss_accum st' = (\<Sum>xy\<leftarrow>bs. fwd xy) / real (length bs)
               \<and> (\<forall>n tok_loss.
                     0 < n \<and> (\<forall>xy \<in> set bs. fwd xy = (\<Sum>k<n. tok_loss xy k) / real n)
                     \<longrightarrow> loss_accum st' = (\<Sum>xy\<leftarrow>bs. \<Sum>k<n. tok_loss xy k) / real (length bs * n))"
  proof (intro exI [of _ bs] conjI allI impI)
    show "next_batches fs (train_loader st) (nat gas) = Inr (bs, train_loader st')" by (rule bs(1))
    show "length bs = nat gas" by (rule bs(2))
    show "loss_accum st' = (\<Sum>xy\<leftarrow>bs. fwd xy / real_of_int gas)" by (rule bs(3))
    show "loss_accum st' = (\<Sum>xy\<leftarrow>bs. fwd xy) / real (length bs)" by (rule mean)
    show "loss_accum st' = (\<Sum>xy\<leftarrow>bs. \<Sum>k<n. tok_loss xy k) / real (length bs * n)"
      if "0 < n \<and> (\<forall>xy \<in> set bs. fwd xy = (\<Sum>k<n. tok_loss xy k) / real n)"
      for n tok_loss
      using that large by blast
  qed
next
  fix bs loader' assume "next_batches fs (train_loader st) (nat gas) = Inr (bs, loader')"
  then show "\<exists>st'. accumulation_window fs fwd ddp gas st = Inr st'"
    using micro_steps_total [of fs "st\<lparr>loss_accum := 0\<rparr>" "py_range gas" bs loader' fwd ddp gas]
    by (simp add: accumulation_window_def length_py_range)
qed

theorem loss_accum_is_mean_witness:
  "accumulation_window tiny_fs toy_loss False 2 toy_state =
     Inr \<lparr>train_loader = tiny_val, loss_accum = 13, model_attrs = DDP_init_attrs,
          grad_sync_log = [False, False]\<rparr>
   \<and> next_batches tiny_fs (train_loader toy_state) (nat 2) =
       Inr ([(\<lparr>dims = (2, 3), elems = [10, 11, 12, 13, 14, 15]\<rparr>,
              \<lparr>dims = (2, 3), elems = [11, 12, 13, 14, 15, 16]\<rparr>),
             (\<lparr>dims = (2, 3), elems = [16, 17, 18, 19, 20, 21]\<rparr>,
              \<lparr>dims = (2, 3), elems = [17, 18, 19, 20, 21, 22]\<rparr>)], tiny_val)
   \<and> toy_loss (\<lparr>dims = (2, 3), elems = [10, 11, 12, 13, 14, 15]\<rparr>,
               \<lparr>dims = (2, 3), elems = [11, 12, 13, 14, 15, 16]\<rparr>) = 10
   \<and> toy_loss (\<lparr>dims = (2, 3), elems = [16, 17, 18, 19, 20, 21]\<rparr>,
               \<lparr>dims = (2, 3), elems = [17, 18, 19, 20, 21, 22]\<rparr>) = 16
   \<and> (13::real) = (10 + 16) / 2"
proof -
  let ?after = "\<lparr>train_loader = tiny_val, loss_accum = 13, model_attrs = DDP_init_attrs,
          grad_sync_log = [False, False]\<rparr>"
  have nb: "next_batches tiny_fs (train_loader toy_state) (nat 2) =
       Inr ([(\<lparr>dims = (2, 3), elems = [10, 11, 12, 13, 14, 15]\<rparr>,
              \<lparr>dims = (2, 3), elems = [11, 12, 13, 14, 15, 16]\<rparr>),
             (\<lparr>dims = (2, 3), elems = [16, 17, 18, 19, 20, 21]\<rparr>,
              \<lparr>dims = (2, 3), elems = [17, 18, 19, 20, 21, 22]\<rparr>)], tiny_val)"
    using next_batches_tiny_val_2 by (simp add: toy_state_def)
  have two: "(0::int) < 2" by simp
  have "\<exists>st'. accumulation_window tiny_fs toy_loss False 2 toy_state = Inr st'"
    by (rule loss_accum_is_mean [where gas = 2 and fs = tiny_fs and fwd = toy_loss and ddp = False
          and st = toy_state, OF two, THEN conjunct2, THEN spec, THEN spec, THEN mp, OF nb])
  moreover have run: "accumulation_window tiny_fs toy_loss False 2 toy_state = Inr ?after"
    using accumulation_window_toy [of False] by simp
  moreover have l1: "toy_loss (\<lparr>dims = (2, 3), elems = [10, 11, 12, 13, 14, 15]\<rparr>,
               \<lparr>dims = (2, 3), elems = [11, 12, 13, 14, 15, 16]\<rparr>) = 10"
    and l2: "toy_loss (\<lparr>dims = (2, 3), elems = [16, 17, 18, 19, 20, 21]\<rparr>,
               \<lparr>dims = (2, 3), elems = [17, 18, 19, 20, 21, 22]\<rparr>) = 16"
    by (simp_all add: toy_loss_def)
  moreover have "(13::real) = (10 + 16) / 2" by simp
  ultimately show ?thesis using nb by (simp only: simp_thms)
qed

subsection \<open>C8\<close>

text \<open>
  C8: the loop assigns \<open>micro_step == grad_accum_steps - 1\<close> to the attribute
  \<open>required_backward_grad_sync\<close>. The wrapper reads \<open>require_backward_grad_sync\<close>, which
  the loop never assigns and which stays \<open>True\<close>: in a distributed run every backward
  pass of the window reduces the gradients, not only the last.
\<close>

theorem ddp_backward_syncs_on_every_micro_step:
  assumes "accumulation_window fs fwd True gas st = Inr st'"
    and "model_attrs st ''require_backward_grad_sync'' = Some True"
  shows "grad_sync_log st' = grad_sync_log st @ replicate (nat gas) True
    \<and> model_attrs st' ''require_backward_grad_sync'' = Some True
    \<and> (0 < gas \<longrightarrow> model_attrs st' ''required_backward_grad_sync'' = Some True)"
proof -
  from assms(1) have run: "micro_steps fs fwd True gas (py_range gas) (st\<lparr>loss_accum := 0\<rparr>) = Inr st'"
    by (simp add: accumulation_window_def)
  from micro_steps_sync_log [OF run] assms(2)
  have log: "grad_sync_log st' = grad_sync_log st @ replicate (nat gas) True"
    and keep: "model_attrs st' ''require_backward_grad_sync'' = Some True"
    by (simp_all add: length_py_range backward_syncs_def)
  have flag: "model_attrs st' ''required_backward_grad_sync'' = Some True" if "0 < gas"
  proof -
    define m where "m = nat gas - 1"
    from that have m: "nat gas = Suc m" and g: "gas - 1 = int m"
      by (simp_all add: m_def)
    have "py_range gas = map int [0..<m] @ [gas - 1]"
      by (simp add: py_range_def m g)
    with run have "micro_steps fs fwd True gas (map int [0..<m] @ [gas - 1]) (st\<lparr>loss_accum := 0\<rparr>)
        = Inr st'"
      by simp
    from micro_steps_flag [OF this] show ?thesis by simp
  qed
  from log keep flag show ?thesis by blast
qed

theorem ddp_backward_syncs_on_every_micro_step_witness:
  "accumulation_window tiny_fs toy_loss True 2 toy_state =
     Inr \<lparr>train_loader = tiny_val, loss_accum = 13,
          model_attrs = DDP_init_attrs(''required_backward_grad_sync'' \<mapsto> True),
          grad_sync_log = [True, True]\<rparr>
   \<and> model_attrs toy_state ''require_backward_grad_sync'' = Some True
   \<and> grad_sync_log \<lparr>train_loader = tiny_val, loss_accum = 13,
          model_attrs = DDP_init_attrs(''required_backward_grad_sync'' \<mapsto> True),
          grad_sync_log = [True, True]\<rparr> = grad_sync_log toy_state @ replicate (nat 2) True"
proof -
  have run: "accumulation_window tiny_fs toy_loss True 2 toy_state =
     Inr \<lparr>train_loader = tiny_val, loss_accum = 13,
          model_attrs = DDP_init_attrs(''required_backward_grad_sync'' \<mapsto> True),
          grad_sync_log = [True, True]\<rparr>"
    using accumulation_window_toy [of True] by simp
  have flag: "model_attrs toy_state ''require_backward_grad_sync'' = Some True"
    by (simp add: toy_state_def DDP_init_attrs_def)
  from ddp_backward_syncs_on_every_micro_step [OF run flag]
  have "grad_sync_log \<lparr>train_loader = tiny_val, loss_accum = 13,
          model_attrs = DDP_init_attrs(''required_backward_grad_sync'' \<mapsto> True),
          grad_sync_log = [True, True]\<rparr> = grad_sync_log toy_state @ replicate (nat 2) True"
    by (rule conjunct1)
  with run flag show ?thesis by (simp only: simp_thms)
qed

subsection \<open>C10\<close>

text \<open>
  C10, as stated, fails on two inputs that pass the assertion. With the default
  configuration, the input of size \<open>(1, 1)\<close> that holds the id 50257, which is not in the
  vocabulary, makes the token embedding raise \<open>IndexError\<close>. With the default
  configuration but \<open>n_embd = 0\<close>, the model is constructed and the first attention
  layer raises on an input of size \<open>(1, 1)\<close>: the split of \<open>qkv\<close> does not give three
  parts.
\<close>

theorem GPT_forward_out_of_vocabulary_counterexample:
  "GPT_init default_config = Inr (GPT default_config)
   \<and> dims \<lparr>dims = (1, 1), elems = [50257]\<rparr> = (1, 1) \<and> 1 \<le> block_size default_config
   \<and> GPT_forward (GPT default_config) \<lparr>dims = (1, 1), elems = [50257]\<rparr> = Inl IndexError
   \<and> GPT_init (default_config\<lparr>n_embd := 0\<rparr>) = Inr (GPT (default_config\<lparr>n_embd := 0\<rparr>))
   \<and> isl (GPT_forward (GPT (default_config\<lparr>n_embd := 0\<rparr>)) \<lparr>dims = (1, 1), elems = [0]\<rparr>)"
proof -
  let ?cfg = "default_config\<lparr>n_embd := 0\<rparr>"
  have first: "Block_forward ?cfg [1, 1, 0] = Inl ValueError"
    by (simp add: Block_forward_def layer_norm_def CasualSelfAttention_forward_def linear_def
        default_config_def)
  have "blocks_forward ?cfg (Suc 11) [1, 1, 0] = Inl ValueError"
    by (simp only: blocks_forward.simps first sum.case)
  then have blocks: "blocks_forward ?cfg (n_layer ?cfg) [1, 1, 0] = Inl ValueError"
    by (simp add: default_config_def)
  have emb: "embedding (block_size ?cfg) (n_embd ?cfg) [1] (map int [0..<1]) = Inr [1, 0]"
    "embedding (vocab_size ?cfg) (n_embd ?cfg) [1, 1] [0] = Inr [1, 1, 0]"
    by (simp_all add: embedding_def default_config_def)
  have "GPT_forward (GPT ?cfg) \<lparr>dims = (1, 1), elems = [0]\<rparr> = Inl ValueError"
    using emb blocks by (simp add: GPT_forward_def default_config_def)
  then have raises: "isl (GPT_forward (GPT ?cfg) \<lparr>dims = (1, 1), elems = [0]\<rparr>)"
    by simp
  have rest: "GPT_init default_config = Inr (GPT default_config)
   \<and> dims \<lparr>dims = (1, 1), elems = [50257]\<rparr> = (1, 1) \<and> 1 \<le> block_size default_config
   \<and> GPT_forward (GPT default_config) \<lparr>dims = (1, 1), elems = [50257]\<rparr> = Inl IndexError
   \<and> GPT_init ?cfg = Inr (GPT ?cfg)"
    by (simp add: GPT_init_def default_config_def GPT_forward_def embedding_def)
  from rest raises show ?thesis by simp
qed

text \<open>
  C10, amended: for a model constructed from a configuration with \<open>n_embd > 0\<close>,
  \<open>forward\<close> fails its assertion on every input whose sequence length \<open>T\<close> exceeds
  \<open>block_size\<close>, and for every input of size \<open>(B, T)\<close> with \<open>T \<le> block_size\<close> whose token
  ids all lie in \<open>[0, vocab_size)\<close> it returns logits of size \<open>(B, T, vocab_size)\<close>.
\<close>

theorem GPT_forward_shape:
  assumes init: "GPT_init cfg = Inr self" and embd: "0 < n_embd cfg" and idx: "dims idx = (B, T)"
  shows "(block_size cfg < T \<longrightarrow> GPT_forward self idx = Inl AssertionError)
    \<and> (T \<le> block_size cfg \<and> (\<forall>t \<in> set (elems idx). 0 \<le> t \<and> t < int (vocab_size cfg))
         \<longrightarrow> GPT_forward self idx = Inr [B, T, vocab_size cfg])"
proof -
  from init have self: "gpt_config self = cfg"
    by (auto simp: GPT_init_def split: if_splits)
  from init embd have heads:
    "n_layer cfg = 0 \<or> (0 < n_embd cfg \<and> 0 < n_head cfg \<and> n_embd cfg mod n_head cfg = 0)"
    by (auto simp: GPT_init_def split: if_splits)
  have reject: "GPT_forward self idx = Inl AssertionError" if "block_size cfg < T"
    using that by (simp add: GPT_forward_def self idx)
  have accept: "GPT_forward self idx = Inr [B, T, vocab_size cfg]"
    if "T \<le> block_size cfg" "\<forall>t \<in> set (elems idx). 0 \<le> t \<and> t < int (vocab_size cfg)"
  proof -
    have pos: "embedding (block_size cfg) (n_embd cfg) [T] (map int [0..<T]) = Inr [T, n_embd cfg]"
      unfolding embedding_def using that(1) by (simp only: positions_in_range) simp
    have tok: "embedding (vocab_size cfg) (n_embd cfg) [B, T] (elems idx) = Inr [B, T, n_embd cfg]"
      unfolding embedding_def using that(2) by simp
    show ?thesis
      using that(1)
      by (simp add: GPT_forward_def self idx pos tok blocks_shape [OF heads] layer_norm_def
          linear_def)
  qed
  from reject accept show ?thesis by blast
qed

theorem GPT_forward_shape_witness:
  "GPT_init default_config = Inr (GPT default_config)
   \<and> GPT_forward (GPT default_config) \<lparr>dims = (1, 2), elems = [15496, 11]\<rparr> = Inr [1, 2, 50257]
   \<and> GPT_forward (GPT default_config) \<lparr>dims = (1, 1025), elems = replicate 1025 0\<rparr>
       = Inl AssertionError"
proof -
  have init: "GPT_init default_config = Inr (GPT default_config)"
    by (simp add: GPT_init_def default_config_def)
  have embd: "0 < n_embd default_config"
    by (simp add: default_config_def)
  have ok: "GPT_forward (GPT default_config) \<lparr>dims = (1, 2), elems = [15496, 11]\<rparr>
      = Inr [1, 2, 50257]"
    using GPT_forward_shape [OF init embd, of "\<lparr>dims = (1, 2), elems = [15496, 11]\<rparr>" 1 2]
    by (simp add: default_config_def)
  have long: "GPT_forward (GPT default_config) \<lparr>dims = (1, 1025), elems = replicate 1025 0\<rparr>
      = Inl AssertionError"
    using GPT_forward_shape [OF init embd, of "\<lparr>dims = (1, 1025), elems = replicate 1025 0\<rparr>" 1 1025]
    by (simp add: default_config_def)
  from init ok long show ?thesis by (simp only: simp_thms)
qed

end
